theory Spec2Isabelle
  imports Complex_Main "HOL-Library.AList" "HOL-Library.Log_Nat"
begin

section \<open>Academic planning backend: rules engine and store\<close>

text \<open>
  A shallow embedding of \<^verbatim>\<open>backend/app/business_logic.py\<close>,
  \<^verbatim>\<open>backend/app/database.py\<close> and the enrollment route of
  \<^verbatim>\<open>backend/app/api/enrollments.py\<close>.

  Numbers: grades and averages are Python floats, that is IEEE doubles. A double is
  modelled by the rational number it denotes (\<^typ>\<open>rat\<close>); comparisons of doubles
  are comparisons of these numbers, and every arithmetic operation on doubles is the
  exact operation followed by rounding to the nearest double (\<open>fl\<close> below).
  Infinities and NaN are not modelled: no operation of this program overflows, and an
  infinite or NaN argument fails the range checks as any value outside 0..10 does.
  Hours are Python ints (\<^typ>\<open>int\<close>).

  Strings: a Python string is the list of its code points, each below 256
  (\<^typ>\<open>char\<close>); a string with a code point from 256 on is outside the model.

  Errors: every \<^verbatim>\<open>raise\<close> of the source is a constructor of \<open>error\<close>; a function
  that can raise returns \<open>error + 'a\<close> with \<open>Inl\<close> for the exception.
\<close>

datatype error =
    OutOfRange              \<comment> \<open>\<^verbatim>\<open>ValueError("... fora do intervalo 0-10")\<close>\<close>
  | InvalidConfiguration    \<comment> \<open>\<^verbatim>\<open>ValueError("Total de horas deve ser maior que 0")\<close>\<close>
  | MalformedTime           \<comment> \<open>\<^verbatim>\<open>ValueError("Formato de horario invalido: ... Use HH:MM")\<close>\<close>
  | SemesterNotFound        \<comment> \<open>\<^verbatim>\<open>HTTPException(404, "Semestre nao encontrado")\<close>\<close>
  | DisciplineNotFound      \<comment> \<open>\<^verbatim>\<open>HTTPException(404, "Disciplina nao encontrada")\<close>\<close>

subsection \<open>Double-precision arithmetic\<close>

text \<open>
  Rounding a number to the nearest integer, a tie going to the even neighbour.
\<close>

definition round_half_even :: "rat \<Rightarrow> int" where
  "round_half_even x =
     (let f = \<lfloor>x\<rfloor>; d = x - of_int f
      in if d < 1 / 2 then f
         else if 1 / 2 < d then f + 1
         else if even f then f else f + 1)"

text \<open>
  The doubles are the numbers \<open>m * 2 ^ e\<close> with \<open>\<bar>m\<bar> < 2 ^ 53\<close> and \<open>e \<ge> - 1074\<close>. For
  \<open>2 ^ e \<le> \<bar>x\<bar> < 2 ^ (e + 1)\<close> the doubles around \<open>x\<close> are the multiples of
  \<open>2 ^ (e - 52)\<close>, and of \<open>2 ^ (- 1074)\<close> when \<open>e < - 1022\<close>. \<open>ilog2 x\<close> is that \<open>e\<close>
  for a positive \<open>x\<close>, and \<open>fl x\<close> is the nearest double to \<open>x\<close>, a tie going to the
  even multiple (the rounding of IEEE 754 that Python uses).
\<close>

definition pow2 :: "int \<Rightarrow> rat" where
  "pow2 k = (if 0 \<le> k then 2 ^ nat k else 1 / 2 ^ nat (- k))"

definition ilog2 :: "rat \<Rightarrow> int" where
  "ilog2 x = (if 1 \<le> x then bitlen \<lfloor>x\<rfloor> - 1 else - bitlen (\<lceil>1 / x\<rceil> - 1))"

definition fl :: "rat \<Rightarrow> rat" where
  "fl x =
     (if x = 0 then 0
      else (let e = max (ilog2 \<bar>x\<bar>) (- 1022); u = pow2 (e - 52)
            in of_int (round_half_even (x / u)) * u))"

definition is_double :: "rat \<Rightarrow> bool" where
  "is_double x \<longleftrightarrow> fl x = x"

text \<open>
  The operations of Python on floats: \<^verbatim>\<open>a + b\<close>, \<^verbatim>\<open>a - b\<close>, \<^verbatim>\<open>a * b\<close> and
  \<^verbatim>\<open>a / b\<close> (also of two ints, whose true division is the correctly rounded
  quotient).
\<close>

definition float_add :: "rat \<Rightarrow> rat \<Rightarrow> rat" where
  "float_add a b = fl (a + b)"

definition float_sub :: "rat \<Rightarrow> rat \<Rightarrow> rat" where
  "float_sub a b = fl (a - b)"

definition float_mul :: "rat \<Rightarrow> rat \<Rightarrow> rat" where
  "float_mul a b = fl (a * b)"

definition float_div :: "rat \<Rightarrow> rat \<Rightarrow> rat" where
  "float_div a b = fl (a / b)"

text \<open>
  \<^verbatim>\<open>round(x, 2)\<close> on a float: the exact value of \<open>x\<close> is rounded to the nearest
  multiple of 1/100, a tie going to the even multiple (\<open>round2\<close>), and the result is the
  double nearest to that decimal.
\<close>

definition round2 :: "rat \<Rightarrow> rat" where
  "round2 x = of_int (round_half_even (x * 100)) / 100"

definition py_round2 :: "rat \<Rightarrow> rat" where
  "py_round2 x = fl (round2 x)"

subsection \<open>AcademicCalculations\<close>

text \<open>
  \<^verbatim>\<open>calculate_ufrpe_average\<close>: the validation loop raises at the first note outside
  0..10; then the list is sorted in decreasing order, the first two entries are added
  and the sum is halved, both in double arithmetic.
\<close>

definition calculate_ufrpe_average :: "rat \<Rightarrow> rat \<Rightarrow> rat \<Rightarrow> error + rat" where
  "calculate_ufrpe_average n1 n2 n3 =
     (let notes = [n1, n2, n3]
      in if list_ex (\<lambda>note. \<not> (0 \<le> note \<and> note \<le> 10)) notes then Inl OutOfRange
         else (let notes' = rev (sort notes);
                   average = float_div (float_add (notes' ! 0) (notes' ! 1)) 2
               in Inr (py_round2 average)))"

definition calculate_final_exam_grade :: "rat \<Rightarrow> error + rat option" where
  "calculate_final_exam_grade average =
     (if \<not> (0 \<le> average \<and> average \<le> 10) then Inl OutOfRange
      else if average \<ge> 7 \<or> average < 3 then Inr None
      else (let final_grade_needed = float_sub 10 average
            in Inr (Some (py_round2 final_grade_needed))))"

text \<open>
  \<^verbatim>\<open>calculate_course_progress\<close>: both arguments are ints; \<^verbatim>\<open>/\<close> is the true
  division of two ints, which gives the double nearest to the quotient, and the product
  with 100 is a product of doubles.
\<close>

definition calculate_course_progress :: "int \<Rightarrow> int \<Rightarrow> error + rat" where
  "calculate_course_progress completed_hours total_hours =
     (if total_hours \<le> 0 then Inl InvalidConfiguration
      else (let completed_hours1 = (if completed_hours < 0 then 0 else completed_hours);
                completed_hours2 = (if completed_hours1 > total_hours then total_hours
                                    else completed_hours1);
                percentage =
                  float_mul (float_div (of_int completed_hours2) (of_int total_hours)) 100
            in Inr (py_round2 percentage)))"

subsection \<open>PrerequisiteValidation\<close>

text \<open>
  \<^verbatim>\<open>check_prerequisites\<close>: the loop appends to \<open>missing\<close> every prerequisite that is
  not a key of the dict or whose value is below 7.0 (the \<^verbatim>\<open>or\<close> short-circuits, so
  the dict is only read at a key it has).
\<close>

fun check_prerequisites_loop ::
  "string list \<Rightarrow> (string \<rightharpoonup> rat) \<Rightarrow> string list \<Rightarrow> string list" where
  "check_prerequisites_loop [] completed_disciplines missing = missing"
| "check_prerequisites_loop (prereq_id # rest) completed_disciplines missing =
     (if (case completed_disciplines prereq_id of None \<Rightarrow> True | Some v \<Rightarrow> v < 7)
      then check_prerequisites_loop rest completed_disciplines (missing @ [prereq_id])
      else check_prerequisites_loop rest completed_disciplines missing)"

definition check_prerequisites ::
  "string list \<Rightarrow> (string \<rightharpoonup> rat) \<Rightarrow> bool \<times> string list" where
  "check_prerequisites discipline_prerequisites completed_disciplines =
     (let missing = check_prerequisites_loop discipline_prerequisites completed_disciplines []
      in (length missing = 0, missing))"

datatype status = Completed | Studying | Available | Blocked

definition validate_discipline_status ::
  "string \<Rightarrow> string list \<Rightarrow> (string \<rightharpoonup> rat) \<Rightarrow> string list \<Rightarrow> status" where
  "validate_discipline_status discipline_id discipline_prerequisites completed_disciplines
       enrolled_ids =
     (if (case completed_disciplines discipline_id of None \<Rightarrow> False | Some v \<Rightarrow> v \<ge> 7)
      then Completed
      else if discipline_id \<in> set enrolled_ids then Studying
      else (let (all_met, _) =
                  check_prerequisites discipline_prerequisites completed_disciplines
            in if all_met then Available else Blocked))"

text \<open>The two results of the prerequisite checker, under the names the specification uses.\<close>

definition missingPrerequisites :: "string list \<Rightarrow> (string \<rightharpoonup> rat) \<Rightarrow> string list" where
  "missingPrerequisites required completed = snd (check_prerequisites required completed)"

definition allSatisfied :: "string list \<Rightarrow> (string \<rightharpoonup> rat) \<Rightarrow> bool" where
  "allSatisfied required completed = fst (check_prerequisites required completed)"

subsection \<open>ScheduleValidation\<close>

text \<open>
  \<^verbatim>\<open>str.split(':')\<close>: the pieces between the separators, with empty pieces kept; the
  empty string gives one empty piece.
\<close>

fun py_split :: "char \<Rightarrow> string \<Rightarrow> string list" where
  "py_split sep [] = [[]]"
| "py_split sep (c # cs) =
     (if c = sep then [] # py_split sep cs
      else (case py_split sep cs of [] \<Rightarrow> [[c]] | p # ps \<Rightarrow> (c # p) # ps))"

text \<open>
  \<^verbatim>\<open>int(s)\<close> on a string: blanks are skipped on both sides, one sign may come
  first, and the decimal digits may be separated by single underscores; anything else
  raises ValueError (\<open>None\<close> here), and so does a literal of more than 4300 digits
  (\<^verbatim>\<open>sys.int_info.default_max_str_digits\<close>). Among the code points below 256 the
  blanks of \<^verbatim>\<open>int\<close> are space, tab, line feed, vertical tab, form feed, carriage
  return, U+0085 and U+00A0, and the decimal digits are 0 to 9.
\<close>

definition is_space :: "char \<Rightarrow> bool" where
  "is_space c \<longleftrightarrow>
     c \<in> set [CHR '' '', CHR 0x09, CHR 0x0A, CHR 0x0B, CHR 0x0C, CHR 0x0D, CHR 0x85, CHR 0xA0]"

definition int_max_str_digits :: nat where
  "int_max_str_digits = 4300"

definition is_digit :: "char \<Rightarrow> bool" where
  "is_digit c \<longleftrightarrow> c \<in> set ''0123456789''"

definition digit_val :: "char \<Rightarrow> int" where
  "digit_val c = of_char c - 48"

fun py_digits :: "int \<Rightarrow> string \<Rightarrow> int option" where
  "py_digits acc [] = Some acc"
| "py_digits acc [c] = (if is_digit c then Some (acc * 10 + digit_val c) else None)"
| "py_digits acc (c # d # cs) =
     (if is_digit c then py_digits (acc * 10 + digit_val c) (d # cs)
      else if c = CHR ''_'' \<and> is_digit d then py_digits (acc * 10 + digit_val d) cs
      else None)"

definition py_int :: "string \<Rightarrow> int option" where
  "py_int s =
     (let t = dropWhile is_space s;
          negative = (case t of [] \<Rightarrow> False | c # _ \<Rightarrow> c = CHR ''-'');
          u = (case t of [] \<Rightarrow> [] | c # r \<Rightarrow> if c = CHR ''-'' \<or> c = CHR ''+'' then r else t);
          v = rev (dropWhile is_space (rev u))
      in case v of
           [] \<Rightarrow> None
         | c # r \<Rightarrow>
             if is_digit c \<and> length (filter is_digit v) \<le> int_max_str_digits
             then map_option (\<lambda>n. if negative then - n else n) (py_digits (digit_val c) r)
             else None)"

text \<open>
  \<^verbatim>\<open>time_to_minutes\<close>: unpacking \<^verbatim>\<open>map(int, time_str.split(':'))\<close> into two names
  raises ValueError unless there are exactly two pieces and both convert; the range check
  raises ValueError too; the handler turns each of them into the one ValueError of the
  function.
\<close>

definition time_to_minutes :: "string \<Rightarrow> error + int" where
  "time_to_minutes time_str =
     (case map py_int (py_split CHR '':'' time_str) of
        [Some hours, Some minutes] \<Rightarrow>
          if \<not> (0 \<le> hours \<and> hours < 24 \<and> 0 \<le> minutes \<and> minutes < 60) then Inl MalformedTime
          else Inr (hours * 60 + minutes)
      | _ \<Rightarrow> Inl MalformedTime)"

definition check_time_overlap :: "string \<Rightarrow> string \<Rightarrow> string \<Rightarrow> string \<Rightarrow> error + bool" where
  "check_time_overlap start1 end1 start2 end2 =
     (case time_to_minutes start1 of Inl e \<Rightarrow> Inl e | Inr start1_min \<Rightarrow>
      case time_to_minutes end1 of Inl e \<Rightarrow> Inl e | Inr end1_min \<Rightarrow>
      case time_to_minutes start2 of Inl e \<Rightarrow> Inl e | Inr start2_min \<Rightarrow>
      case time_to_minutes end2 of Inl e \<Rightarrow> Inl e | Inr end2_min \<Rightarrow>
        Inr (start1_min < end2_min \<and> end1_min > start2_min))"

text \<open>A schedule item: the keys \<^verbatim>\<open>day\<close>, \<^verbatim>\<open>start\<close>, \<^verbatim>\<open>end\<close>, \<^verbatim>\<open>location\<close>.\<close>

record schedule_item =
  sch_day :: int
  sch_start :: string
  sch_end :: string
  sch_location :: string

text \<open>The detail returned with a conflict: the day and the two time ranges.\<close>

record conflict_info =
  ci_day :: int
  ci_time1 :: string
  ci_time2 :: string

text \<open>
  \<^verbatim>\<open>has_schedule_conflict\<close>: the inner loop over the second discipline's items for one
  item of the first, then the outer loop. An exception of \<^verbatim>\<open>check_time_overlap\<close>
  leaves both loops.
\<close>

fun has_schedule_conflict_inner ::
  "schedule_item \<Rightarrow> schedule_item list \<Rightarrow> error + conflict_info option" where
  "has_schedule_conflict_inner sch1 [] = Inr None"
| "has_schedule_conflict_inner sch1 (sch2 # rest) =
     (if sch_day sch1 = sch_day sch2
      then (case check_time_overlap (sch_start sch1) (sch_end sch1)
                                    (sch_start sch2) (sch_end sch2) of
              Inl e \<Rightarrow> Inl e
            | Inr overlap \<Rightarrow>
                if overlap
                then Inr (Some \<lparr>ci_day = sch_day sch1,
                                ci_time1 = sch_start sch1 @ ''-'' @ sch_end sch1,
                                ci_time2 = sch_start sch2 @ ''-'' @ sch_end sch2\<rparr>)
                else has_schedule_conflict_inner sch1 rest)
      else has_schedule_conflict_inner sch1 rest)"

fun has_schedule_conflict ::
  "schedule_item list \<Rightarrow> schedule_item list \<Rightarrow> error + (bool \<times> conflict_info option)" where
  "has_schedule_conflict [] discipline2_schedules = Inr (False, None)"
| "has_schedule_conflict (sch1 # rest) discipline2_schedules =
     (case has_schedule_conflict_inner sch1 discipline2_schedules of
        Inl e \<Rightarrow> Inl e
      | Inr (Some info) \<Rightarrow> Inr (True, Some info)
      | Inr None \<Rightarrow> has_schedule_conflict rest discipline2_schedules)"

subsection \<open>Database\<close>

text \<open>
  A discipline is a dict with the keys of \<^verbatim>\<open>DisciplineCreate\<close> and, once grades are
  set, \<^verbatim>\<open>n1\<close>, \<^verbatim>\<open>n2\<close>, \<^verbatim>\<open>n3\<close> and \<^verbatim>\<open>media_final\<close>; a key that is absent
  (\<^verbatim>\<open>disc.get(k)\<close> is \<^verbatim>\<open>None\<close>) is \<open>None\<close>.
\<close>

record discipline_create =
  d_code :: string
  d_name :: string
  d_professor :: string
  d_period :: int
  d_hours :: int
  d_prerequisites :: "string list"
  d_schedules :: "schedule_item list"

record discipline = discipline_create +
  d_n1 :: "rat option"
  d_n2 :: "rat option"
  d_n3 :: "rat option"
  d_media_final :: "rat option"

datatype semester_status = Ativo | Planejado | Encerrado

record semester =
  sem_code :: string
  sem_status :: semester_status

text \<open>
  The three dicts of \<^verbatim>\<open>Database\<close>. A Python dict keeps its keys in insertion order, so
  each is an association list: \<open>map_of\<close> reads a key, \<open>AList.update\<close> writes one (in
  place when the key exists, at the end otherwise), \<open>AList.delete\<close> removes one.
  Writing the JSON files (\<^verbatim>\<open>_save_data\<close>) does not change the dicts and is left out.
\<close>

record database =
  disciplines :: "(string \<times> discipline) list"
  semesters :: "(string \<times> semester) list"
  enrollments :: "(string \<times> string list) list"

definition get_discipline :: "database \<Rightarrow> string \<Rightarrow> discipline option" where
  "get_discipline db code = map_of (disciplines db) code"

definition get_all_disciplines :: "database \<Rightarrow> discipline list" where
  "get_all_disciplines db = map snd (disciplines db)"

definition create_discipline :: "database \<Rightarrow> discipline_create \<Rightarrow> database" where
  "create_discipline db discipline =
     (let disc_data = \<lparr>d_code = d_code discipline, d_name = d_name discipline,
                        d_professor = d_professor discipline, d_period = d_period discipline,
                        d_hours = d_hours discipline,
                        d_prerequisites = d_prerequisites discipline,
                        d_schedules = d_schedules discipline,
                        d_n1 = None, d_n2 = None, d_n3 = None, d_media_final = None\<rparr>
      in db\<lparr>disciplines := AList.update (d_code discipline) disc_data (disciplines db)\<rparr>)"

text \<open>The partial fields of an update: \<open>None\<close> for a key the dict \<^verbatim>\<open>updates\<close> lacks.\<close>

record discipline_update =
  u_name :: "string option"
  u_professor :: "string option"
  u_period :: "int option"
  u_hours :: "int option"
  u_schedules :: "schedule_item list option"
  u_prerequisites :: "string list option"
  u_media_final :: "rat option"

definition merge_updates :: "discipline \<Rightarrow> discipline_update \<Rightarrow> discipline" where
  "merge_updates d u =
     d\<lparr>d_name := (case u_name u of None \<Rightarrow> d_name d | Some v \<Rightarrow> v),
       d_professor := (case u_professor u of None \<Rightarrow> d_professor d | Some v \<Rightarrow> v),
       d_period := (case u_period u of None \<Rightarrow> d_period d | Some v \<Rightarrow> v),
       d_hours := (case u_hours u of None \<Rightarrow> d_hours d | Some v \<Rightarrow> v),
       d_schedules := (case u_schedules u of None \<Rightarrow> d_schedules d | Some v \<Rightarrow> v),
       d_prerequisites :=
         (case u_prerequisites u of None \<Rightarrow> d_prerequisites d | Some v \<Rightarrow> v),
       d_media_final :=
         (case u_media_final u of None \<Rightarrow> d_media_final d | Some v \<Rightarrow> Some v)\<rparr>"

definition update_discipline ::
  "database \<Rightarrow> string \<Rightarrow> discipline_update \<Rightarrow> discipline option \<times> database" where
  "update_discipline db code updates =
     (case map_of (disciplines db) code of
        None \<Rightarrow> (None, db)
      | Some d \<Rightarrow>
          (let d' = merge_updates d updates
           in (Some d', db\<lparr>disciplines := AList.update code d' (disciplines db)\<rparr>)))"

text \<open>
  \<^verbatim>\<open>delete_discipline\<close>: \<^verbatim>\<open>list.remove\<close> takes out the first occurrence of the
  code, in every enrollment list that has it.
\<close>

definition delete_discipline :: "database \<Rightarrow> string \<Rightarrow> bool \<times> database" where
  "delete_discipline db code =
     (if map_of (disciplines db) code = None then (False, db)
      else (True, db\<lparr>disciplines := AList.delete code (disciplines db),
                      enrollments :=
                        map (\<lambda>(semester_code, codes).
                               (semester_code,
                                if code \<in> set codes then remove1 code codes else codes))
                            (enrollments db)\<rparr>))"

fun bulk_create_disciplines :: "database \<Rightarrow> discipline_create list \<Rightarrow> nat \<times> database" where
  "bulk_create_disciplines db [] = (0, db)"
| "bulk_create_disciplines db (disc # rest) =
     (if map_of (disciplines db) (d_code disc) = None
      then (let (count, db') = bulk_create_disciplines (create_discipline db disc) rest
            in (count + 1, db'))
      else bulk_create_disciplines db rest)"

definition get_semester :: "database \<Rightarrow> string \<Rightarrow> semester option" where
  "get_semester db code = map_of (semesters db) code"

definition create_semester :: "database \<Rightarrow> semester \<Rightarrow> database" where
  "create_semester db sem =
     db\<lparr>semesters := AList.update (sem_code sem) sem (semesters db),
        enrollments := AList.update (sem_code sem) [] (enrollments db)\<rparr>"

definition update_semester ::
  "database \<Rightarrow> string \<Rightarrow> semester_status option \<Rightarrow> semester option \<times> database" where
  "update_semester db code updates =
     (case map_of (semesters db) code of
        None \<Rightarrow> (None, db)
      | Some sem \<Rightarrow>
          (let sem' = (case updates of None \<Rightarrow> sem | Some st \<Rightarrow> sem\<lparr>sem_status := st\<rparr>)
           in (Some sem', db\<lparr>semesters := AList.update code sem' (semesters db)\<rparr>)))"

definition get_enrolled_disciplines :: "database \<Rightarrow> string \<Rightarrow> discipline list" where
  "get_enrolled_disciplines db semester_code =
     (case map_of (enrollments db) semester_code of
        None \<Rightarrow> []
      | Some discipline_codes \<Rightarrow> List.map_filter (map_of (disciplines db)) discipline_codes)"

text \<open>\<^verbatim>\<open>Database.enroll_discipline\<close>.\<close>

definition db_enroll_discipline :: "database \<Rightarrow> string \<Rightarrow> string \<Rightarrow> bool \<times> database" where
  "db_enroll_discipline db semester_code discipline_code =
     (case map_of (enrollments db) semester_code of
        None \<Rightarrow> (False, db)
      | Some codes \<Rightarrow>
          if map_of (disciplines db) discipline_code = None then (False, db)
          else if discipline_code \<notin> set codes
          then (True, db\<lparr>enrollments :=
                           AList.update semester_code (codes @ [discipline_code])
                             (enrollments db)\<rparr>)
          else (False, db))"

text \<open>\<^verbatim>\<open>Database.unenroll_discipline\<close>.\<close>

definition db_unenroll_discipline :: "database \<Rightarrow> string \<Rightarrow> string \<Rightarrow> bool \<times> database" where
  "db_unenroll_discipline db semester_code discipline_code =
     (case map_of (enrollments db) semester_code of
        None \<Rightarrow> (False, db)
      | Some codes \<Rightarrow>
          if discipline_code \<in> set codes
          then (True, db\<lparr>enrollments :=
                           AList.update semester_code (remove1 discipline_code codes)
                             (enrollments db)\<rparr>)
          else (False, db))"

definition set_grades :: "database \<Rightarrow> string \<Rightarrow> rat \<Rightarrow> rat \<Rightarrow> rat \<Rightarrow> bool \<times> database" where
  "set_grades db discipline_code n1 n2 n3 =
     (case map_of (disciplines db) discipline_code of
        None \<Rightarrow> (False, db)
      | Some d \<Rightarrow>
          (True, db\<lparr>disciplines :=
                      AList.update discipline_code
                        (d\<lparr>d_n1 := Some n1, d_n2 := Some n2, d_n3 := Some n3\<rparr>)
                        (disciplines db)\<rparr>))"

text \<open>The operations of the store that change it, and their effect on the three dicts.\<close>

datatype store_op =
    CreateDiscipline discipline_create
  | UpdateDiscipline string discipline_update
  | DeleteDiscipline string
  | BulkCreateDisciplines "discipline_create list"
  | CreateSemester semester
  | UpdateSemester string "semester_status option"
  | EnrollDiscipline string string
  | UnenrollDiscipline string string
  | SetGrades string rat rat rat

fun run_op :: "store_op \<Rightarrow> database \<Rightarrow> database" where
  "run_op (CreateDiscipline d) db = create_discipline db d"
| "run_op (UpdateDiscipline code u) db = snd (update_discipline db code u)"
| "run_op (DeleteDiscipline code) db = snd (delete_discipline db code)"
| "run_op (BulkCreateDisciplines ds) db = snd (bulk_create_disciplines db ds)"
| "run_op (CreateSemester sem) db = create_semester db sem"
| "run_op (UpdateSemester code u) db = snd (update_semester db code u)"
| "run_op (EnrollDiscipline sc dc) db = snd (db_enroll_discipline db sc dc)"
| "run_op (UnenrollDiscipline sc dc) db = snd (db_unenroll_discipline db sc dc)"
| "run_op (SetGrades code n1 n2 n3) db = snd (set_grades db code n1 n2 n3)"

text \<open>
  The invariant of the enrollment lists: no code twice in a list, and every code in a
  list is a key of the disciplines dict.
\<close>

definition enrollment_inv :: "database \<Rightarrow> bool" where
  "enrollment_inv db \<longleftrightarrow>
     list_all (\<lambda>(semester_code, codes).
                 distinct codes \<and> list_all (\<lambda>c. map_of (disciplines db) c \<noteq> None) codes)
              (enrollments db)"

subsection \<open>The enrollment route\<close>

text \<open>
  The four \<^verbatim>\<open>EnrollmentResponse\<close> values that \<^verbatim>\<open>POST /api/enroll\<close> returns, by
  their message: "Pre-requisitos nao atendidos" with the missing names, "Conflito de
  horario detectado" with the name of the conflicting discipline, "Disciplina
  matriculada com sucesso" and "Disciplina ja matriculada".
\<close>

datatype outcome =
    PrerequisitesNotMet "string list"
  | ScheduleConflict string
  | EnrolledSuccessfully
  | AlreadyEnrolled

text \<open>
  The dict of completed disciplines: the loop over all disciplines stores the final
  average under the discipline's \<^verbatim>\<open>code\<close> when it is present, non-zero (truthy) and
  at least 7.0.
\<close>

fun completed_loop :: "discipline list \<Rightarrow> (string \<rightharpoonup> rat) \<Rightarrow> (string \<rightharpoonup> rat)" where
  "completed_loop [] completed_disciplines = completed_disciplines"
| "completed_loop (disc # rest) completed_disciplines =
     (case d_media_final disc of
        None \<Rightarrow> completed_loop rest completed_disciplines
      | Some m \<Rightarrow>
          if m \<noteq> 0 \<and> m \<ge> 7
          then completed_loop rest (completed_disciplines(d_code disc \<mapsto> m))
          else completed_loop rest completed_disciplines)"

definition completed_of :: "database \<Rightarrow> (string \<rightharpoonup> rat)" where
  "completed_of db = completed_loop (get_all_disciplines db) Map.empty"

text \<open>
  The loop over the enrolled disciplines: the target's schedules are the first argument
  of \<^verbatim>\<open>has_schedule_conflict\<close>; the first discipline with a conflict ends the loop
  with its name.
\<close>

fun conflict_loop :: "schedule_item list \<Rightarrow> discipline list \<Rightarrow> error + string option" where
  "conflict_loop schedules [] = Inr None"
| "conflict_loop schedules (enrolled_disc # rest) =
     (case has_schedule_conflict schedules (d_schedules enrolled_disc) of
        Inl e \<Rightarrow> Inl e
      | Inr (has_conflict, conflict_info) \<Rightarrow>
          if has_conflict then Inr (Some (d_name enrolled_disc))
          else conflict_loop schedules rest)"

text \<open>
  The route \<^verbatim>\<open>enroll_discipline\<close> of \<^verbatim>\<open>api/enrollments.py\<close>: the result and the
  store after the request.
\<close>

definition api_enroll_discipline ::
  "database \<Rightarrow> string \<Rightarrow> string \<Rightarrow> (error + outcome) \<times> database" where
  "api_enroll_discipline db semester_code discipline_code =
     (case get_semester db semester_code of
        None \<Rightarrow> (Inl SemesterNotFound, db)
      | Some semester \<Rightarrow>
     (case get_discipline db discipline_code of
        None \<Rightarrow> (Inl DisciplineNotFound, db)
      | Some discipline \<Rightarrow>
          (let completed_disciplines = completed_of db;
               (prereq_met, missing) =
                 check_prerequisites (d_prerequisites discipline) completed_disciplines
           in if \<not> prereq_met
              then (let missing_names =
                          map (\<lambda>code. d_name (the (get_discipline db code)))
                            (filter (\<lambda>code. get_discipline db code \<noteq> None) missing)
                    in (Inr (PrerequisitesNotMet missing_names), db))
              else (case conflict_loop (d_schedules discipline)
                           (get_enrolled_disciplines db semester_code) of
                      Inl e \<Rightarrow> (Inl e, db)
                    | Inr (Some conflicting) \<Rightarrow> (Inr (ScheduleConflict conflicting), db)
                    | Inr None \<Rightarrow>
                        (case db_enroll_discipline db semester_code discipline_code of
                           (True, db') \<Rightarrow> (Inr EnrolledSuccessfully, db')
                         | (False, db') \<Rightarrow> (Inr AlreadyEnrolled, db'))))))"

subsection \<open>Sample data\<close>

text \<open>
  Three disciplines and the two semesters of \<^verbatim>\<open>_initialize_default_data\<close>, with the
  accents of the names and professors dropped; the enrollment list of semester 2024.1
  is a parameter.
\<close>

definition disc_14117 :: discipline where
  "disc_14117 =
     \<lparr>d_code = ''14117'', d_name = ''INTRODUCAO A PROGRAMACAO I'',
      d_professor = ''Pericles Miranda'', d_period = 1, d_hours = 60,
      d_prerequisites = [],
      d_schedules =
        [\<lparr>sch_day = 1, sch_start = ''14:00'', sch_end = ''16:00'', sch_location = ''A definir''\<rparr>,
         \<lparr>sch_day = 4, sch_start = ''16:00'', sch_end = ''18:00'', sch_location = ''A definir''\<rparr>],
      d_n1 = None, d_n2 = None, d_n3 = None, d_media_final = None\<rparr>"

definition disc_14203 :: discipline where
  "disc_14203 =
     \<lparr>d_code = ''14203'', d_name = ''MATEMATICA DISCRETA I'',
      d_professor = ''Pablo Sampaio'', d_period = 1, d_hours = 60,
      d_prerequisites = [],
      d_schedules =
        [\<lparr>sch_day = 3, sch_start = ''16:00'', sch_end = ''18:00'', sch_location = ''A definir''\<rparr>,
         \<lparr>sch_day = 5, sch_start = ''14:00'', sch_end = ''16:00'', sch_location = ''A definir''\<rparr>],
      d_n1 = None, d_n2 = None, d_n3 = None, d_media_final = None\<rparr>"

definition disc_06214 :: discipline where
  "disc_06214 =
     \<lparr>d_code = ''06214'', d_name = ''ALGORITMOS'',
      d_professor = ''TBD'', d_period = 2, d_hours = 60,
      d_prerequisites = [''14117''],
      d_schedules =
        [\<lparr>sch_day = 2, sch_start = ''14:00'', sch_end = ''16:00'', sch_location = ''A definir''\<rparr>,
         \<lparr>sch_day = 4, sch_start = ''16:00'', sch_end = ''18:00'', sch_location = ''A definir''\<rparr>],
      d_n1 = None, d_n2 = None, d_n3 = None, d_media_final = None\<rparr>"

definition sample_db :: "string list \<Rightarrow> database" where
  "sample_db enrolled =
     \<lparr>disciplines = [(''14117'', disc_14117), (''14203'', disc_14203), (''06214'', disc_06214)],
      semesters = [(''2024.1'', \<lparr>sem_code = ''2024.1'', sem_status = Ativo\<rparr>),
                   (''2024.2'', \<lparr>sem_code = ''2024.2'', sem_status = Planejado\<rparr>)],
      enrollments = [(''2024.1'', enrolled), (''2024.2'', [])]\<rparr>"

text \<open>
  The same store after grades were set for 14117, with final average \<open>grade\<close>, and
  with \<open>prereqs\<close> as the prerequisites of 06214.
\<close>

definition graded_db :: "rat \<Rightarrow> string list \<Rightarrow> string list \<Rightarrow> database" where
  "graded_db grade prereqs enrolled =
     (sample_db enrolled)
       \<lparr>disciplines :=
          [(''14117'', disc_14117\<lparr>d_n1 := Some grade, d_n2 := Some grade, d_n3 := Some 0,
                                    d_media_final := Some grade\<rparr>),
           (''14203'', disc_14203),
           (''06214'', disc_06214\<lparr>d_prerequisites := prereqs\<rparr>)]\<rparr>"

text \<open>A store whose only discipline was created without schedules and is enrolled.\<close>

definition unscheduled_db :: database where
  "unscheduled_db =
     (sample_db [''14203''])\<lparr>disciplines := [(''14203'', disc_14203\<lparr>d_schedules := []\<rparr>)]\<rparr>"

section \<open>Properties\<close>

subsection \<open>Prerequisite checker\<close>

lemma check_prerequisites_loop_filter:
  "check_prerequisites_loop required completed acc =
     acc @ filter (\<lambda>c. \<not> (\<exists>v. completed c = Some v \<and> v \<ge> 7)) required"
  by (induction required arbitrary: acc) (auto split: option.splits)

text \<open>
  Claim C4. The list of missing prerequisites is the list of required codes, in the order
  of \<open>required\<close> and with its duplicates, that are not a key of \<open>completed\<close> with a
  value of at least 7.0; and \<open>allSatisfied\<close> holds exactly when that list is empty.
\<close>

theorem missingPrerequisites_filter:
  "missingPrerequisites required completed =
     filter (\<lambda>c. \<not> (c \<in> dom completed \<and> the (completed c) \<ge> 7)) required
   \<and> (allSatisfied required completed \<longleftrightarrow> missingPrerequisites required completed = [])"
proof -
  have "(\<lambda>c. \<not> (\<exists>v. completed c = Some v \<and> v \<ge> 7))
        = (\<lambda>c. \<not> (c \<in> dom completed \<and> the (completed c) \<ge> 7))"
    by (rule ext) auto
  then show ?thesis
    by (simp add: missingPrerequisites_def allSatisfied_def check_prerequisites_def
        check_prerequisites_loop_filter Let_def)
qed

theorem missingPrerequisites_filter_witness:
  "missingPrerequisites [''A'', ''B'', ''A''] [''A'' \<mapsto> 69 / 10] = [''A'', ''B'', ''A'']
   \<and> missingPrerequisites [''A'', ''B'', ''B''] [''A'' \<mapsto> 7] = [''B'', ''B'']
   \<and> \<not> allSatisfied [''A'', ''B'', ''B''] [''A'' \<mapsto> 7]
   \<and> allSatisfied [''A''] [''A'' \<mapsto> 7]"
  using missingPrerequisites_filter [of "[''A'', ''B'', ''A'']" "[''A'' \<mapsto> 69 / 10]"]
    missingPrerequisites_filter [of "[''A'', ''B'', ''B'']" "[''A'' \<mapsto> 7]"]
    missingPrerequisites_filter [of "[''A'']" "[''A'' \<mapsto> 7]"]
  by (simp add: dom_def)

subsection \<open>Double-precision arithmetic\<close>

text \<open>
  \<open>ilog2\<close> is the binary exponent, and \<open>fl\<close> moves a number by at most half a unit in
  the last place: by at most \<open>2 ^ (k - 54)\<close> below \<open>2 ^ k\<close>.
\<close>


lemma pow2_powi: "pow2 k = 2 powi k"
  by (simp add: pow2_def power_int_def inverse_eq_divide power_one_over)

lemma pow2_pos: "0 < pow2 k"
  by (simp add: pow2_powi)

lemma pow2_add: "pow2 (a + b) = pow2 a * pow2 b"
  by (simp add: pow2_powi power_int_add)

lemma pow2_mono: "a \<le> b \<Longrightarrow> pow2 a \<le> pow2 b"
  by (simp add: pow2_powi power_int_increasing)

lemma pow2_less_cancel: "pow2 a < pow2 b \<Longrightarrow> a < b"
  using pow2_mono[of b a] by (cases "a < b") auto

lemma pow2_half: "pow2 (k - 1) = pow2 k / 2"
  using pow2_add[of "k - 1" 1] by (simp add: pow2_def)

lemma ilog2_bounds:
  assumes "0 < x"
  shows "pow2 (ilog2 x) \<le> x \<and> x < pow2 (ilog2 x + 1)"
proof (cases "1 \<le> x")
  case True
  define n where "n = \<lfloor>x\<rfloor>"
  have n: "0 < n" "of_int n \<le> x" "x < of_int n + 1"
    using True unfolding n_def by (auto simp: floor_less_iff) linarith+
  from bitlen_bounds[OF n(1)] have b: "2 ^ nat (bitlen n - 1) \<le> n" "n < 2 ^ nat (bitlen n)"
    by auto
  have p: "0 \<le> bitlen n - 1" using n(1) by (simp add: bitlen_alt_def)
  have "pow2 (bitlen n - 1) = of_int (2 ^ nat (bitlen n - 1))"
    using p by (simp add: pow2_def)
  also have "\<dots> \<le> of_int n" using b(1) by (simp only: of_int_le_iff)
  finally have lo: "pow2 (bitlen n - 1) \<le> x" using n(2) by simp
  have "n + 1 \<le> 2 ^ nat (bitlen n)" using b(2) by simp
  then have "(of_int (n + 1) :: rat) \<le> of_int (2 ^ nat (bitlen n))" by (simp only: of_int_le_iff)
  moreover have "pow2 (bitlen n) = of_int (2 ^ nat (bitlen n))"
    using p by (simp add: pow2_def)
  ultimately have hi: "x < pow2 (bitlen n)" using n(3) by simp
  show ?thesis using True lo hi by (simp add: ilog2_def n_def)
next
  case False
  define m where "m = \<lceil>1 / x\<rceil> - 1"
  have y: "1 < 1 / x" using False assms by (simp add: field_simps)
  have m: "0 < m" "of_int m < 1 / x" "1 / x \<le> of_int m + 1"
    using y unfolding m_def by (auto simp: less_ceiling_iff) linarith+
  from bitlen_bounds[OF m(1)] have b: "2 ^ nat (bitlen m - 1) \<le> m" "m < 2 ^ nat (bitlen m)"
    by auto
  have p: "0 \<le> bitlen m - 1" using m(1) by (simp add: bitlen_alt_def)
  have "m + 1 \<le> 2 ^ nat (bitlen m)" using b(2) by simp
  then have "(of_int (m + 1) :: rat) \<le> of_int (2 ^ nat (bitlen m))" by (simp only: of_int_le_iff)
  then have "1 / x \<le> 2 ^ nat (bitlen m)" using m(3) by simp
  then have lo: "1 / 2 ^ nat (bitlen m) \<le> x"
    using assms by (simp add: field_simps)
  have "(2 :: rat) ^ nat (bitlen m - 1) \<le> of_int m"
    using b(1) of_int_le_iff[of "2 ^ nat (bitlen m - 1)" m, where ?'a = rat] by simp
  then have "2 ^ nat (bitlen m - 1) < 1 / x" using m(2) by linarith
  then have hi: "x < 1 / 2 ^ nat (bitlen m - 1)"
    using assms by (simp add: field_simps)
  have e1: "pow2 (- bitlen m) = 1 / 2 ^ nat (bitlen m)"
    using p by (simp add: pow2_def)
  have e2: "pow2 (- bitlen m + 1) = 1 / 2 ^ nat (bitlen m - 1)"
  proof (cases "bitlen m = 1")
    case True
    then show ?thesis by (simp add: pow2_def)
  next
    case False
    with p have "- bitlen m + 1 < 0" by simp
    moreover have "nat (- (- bitlen m + 1)) = nat (bitlen m - 1)" by simp
    ultimately show ?thesis by (simp add: pow2_def)
  qed
  show ?thesis using False lo hi e1 e2 by (simp add: ilog2_def m_def)
qed

lemma round_half_even_near: "\<bar>of_int (round_half_even x) - x\<bar> \<le> 1 / 2"
proof -
  define f where "f = \<lfloor>x\<rfloor>"
  have b: "of_int f \<le> x" "x < of_int f + 1" unfolding f_def by linarith+
  have r: "round_half_even x =
     (if x - of_int f < 1 / 2 then f
      else if 1 / 2 < x - of_int f then f + 1
      else if even f then f else f + 1)"
    by (simp add: round_half_even_def Let_def f_def)
  show ?thesis
  proof (cases "x - of_int f < 1 / 2")
    case True
    with b r show ?thesis by (simp add: abs_if)
  next
    case False
    show ?thesis
    proof (cases "1 / 2 < x - of_int f")
      case True
      with False r have "round_half_even x = f + 1" by simp
      with b True show ?thesis by (simp add: abs_if)
    next
      case h: False
      with False have e: "x - of_int f = 1 / 2" by simp
      from False h r have "round_half_even x = f \<or> round_half_even x = f + 1" by auto
      with e show ?thesis by (auto simp: abs_if)
    qed
  qed
qed

lemma fl_near_unit:
  assumes "x \<noteq> 0"
  shows "\<bar>fl x - x\<bar> \<le> pow2 (max (ilog2 \<bar>x\<bar>) (- 1022) - 53)"
proof -
  define u where "u = pow2 (max (ilog2 \<bar>x\<bar>) (- 1022) - 52)"
  have u: "0 < u" unfolding u_def by (rule pow2_pos)
  have f: "fl x = of_int (round_half_even (x / u)) * u"
    using assms by (simp add: fl_def Let_def u_def)
  have "\<bar>fl x - x\<bar> = \<bar>of_int (round_half_even (x / u)) - x / u\<bar> * u"
  proof -
    have "fl x - x = (of_int (round_half_even (x / u)) - x / u) * u"
      using u by (simp add: f field_simps)
    then show ?thesis using u by (simp add: abs_mult)
  qed
  also have "\<dots> \<le> (1 / 2) * u"
    using round_half_even_near[of "x / u"] u by (simp add: mult_right_mono)
  also have "\<dots> = pow2 (max (ilog2 \<bar>x\<bar>) (- 1022) - 53)"
    using pow2_half[of "max (ilog2 \<bar>x\<bar>) (- 1022) - 52"] by (simp add: u_def)
  finally show ?thesis .
qed

lemma fl_near:
  assumes "\<bar>x\<bar> < pow2 k" and "- 1021 \<le> k"
  shows "\<bar>fl x - x\<bar> \<le> pow2 (k - 54)"
proof (cases "x = 0")
  case True
  then show ?thesis using pow2_pos[of "k - 54"] by (simp add: fl_def)
next
  case False
  then have "0 < \<bar>x\<bar>" by simp
  from ilog2_bounds[OF this] assms(1) have "pow2 (ilog2 \<bar>x\<bar>) < pow2 k" by simp
  then have "ilog2 \<bar>x\<bar> < k" by (rule pow2_less_cancel)
  with assms(2) have "max (ilog2 \<bar>x\<bar>) (- 1022) - 53 \<le> k - 54" by simp
  from pow2_mono[OF this] fl_near_unit[OF False] show ?thesis by simp
qed


lemma round2_near: "\<bar>round2 x - x\<bar> \<le> 1 / 200"
proof -
  have "\<bar>round2 x - x\<bar> = \<bar>of_int (round_half_even (x * 100)) - x * 100\<bar> / 100"
    by (simp add: round2_def abs_if field_simps)
  also have "\<dots> \<le> (1 / 2) / 100"
    using round_half_even_near[of "x * 100"] by (simp add: divide_right_mono)
  finally show ?thesis by simp
qed

lemma round2_hundredth: "\<exists>k::int. round2 x = of_int k / 100"
  by (auto simp: round2_def)

text \<open>Known doubles: 0.1, 0.12, 0.13, 7.55 and 1/3 as Python stores them.\<close>

lemma fl_known_doubles:
  "fl (1 / 10) = 3602879701896397 / 36028797018963968"
  "fl (12 / 100) = 1080863910568919 / 9007199254740992"
  "fl (13 / 100) = 1170935903116329 / 9007199254740992"
  "fl (755 / 100) = 8500544296661811 / 1125899906842624"
  "fl (1 / 3) = 6004799503160661 / 18014398509481984"
  "fl (1 / 4 + 1 / 2 ^ 60) = 1 / 4"
  "fl (2 ^ 53 + 1) = 2 ^ 53"
  "fl (2 ^ 53 + 3) = 2 ^ 53 + 4"
  by code_simp+

subsection \<open>Grade calculator\<close>


lemma sorted3:
  fixes a b c :: rat
  shows "rev (sort [a, b, c]) ! 0 = max a (max b c)"
    and "rev (sort [a, b, c]) ! 1 = max (min a b) (min (max a b) c)"
  by (auto simp: min_def max_def)

lemma calculate_ufrpe_average_eq:
  "calculate_ufrpe_average n1 n2 n3 =
     (if 0 \<le> n1 \<and> n1 \<le> 10 \<and> 0 \<le> n2 \<and> n2 \<le> 10 \<and> 0 \<le> n3 \<and> n3 \<le> 10
      then Inr (py_round2 (float_div
                  (float_add (max n1 (max n2 n3)) (max (min n1 n2) (min (max n1 n2) n3))) 2))
      else Inl OutOfRange)"
  unfolding calculate_ufrpe_average_def Let_def sorted3 by auto

lemma median3_perm:
  fixes a b c :: rat
  shows "max (min a c) (min (max a c) b) = max (min a b) (min (max a b) c)"
    "max (min b a) (min (max b a) c) = max (min a b) (min (max a b) c)"
    "max (min b c) (min (max b c) a) = max (min a b) (min (max a b) c)"
    "max (min c a) (min (max c a) b) = max (min a b) (min (max a b) c)"
    "max (min c b) (min (max c b) a) = max (min a b) (min (max a b) c)"
  by (auto simp: min_def max_def)

lemma max3_perm:
  fixes a b c :: rat
  shows "max a (max c b) = max a (max b c)" "max b (max a c) = max a (max b c)"
    "max b (max c a) = max a (max b c)" "max c (max a b) = max a (max b c)"
    "max c (max b a) = max a (max b c)"
  by (auto simp: max_def)


lemma py_round2_near:
  assumes "\<bar>x\<bar> \<le> 127"
  shows "\<bar>py_round2 x - x\<bar> \<le> 1 / 200 + 1 / 2 ^ 47"
proof -
  have "\<bar>round2 x\<bar> \<le> \<bar>x\<bar> + 1 / 200" using round2_near[of x] by linarith
  with assms have "\<bar>round2 x\<bar> < pow2 7" by (simp add: pow2_def)
  from fl_near[OF this] have "\<bar>fl (round2 x) - round2 x\<bar> \<le> 1 / 2 ^ 47"
    by (simp add: pow2_def)
  with round2_near[of x] show ?thesis unfolding py_round2_def by linarith
qed

lemma halve_error:
  fixes s t h e :: rat
  shows "\<bar>s - t\<bar> \<le> 2 * e \<Longrightarrow> \<bar>h - s / 2\<bar> \<le> e \<Longrightarrow> \<bar>h - t / 2\<bar> \<le> 2 * e"
  by linarith

lemma double_mean_near:
  assumes "0 \<le> a" "a \<le> 10" "0 \<le> b" "b \<le> 10"
  shows "\<bar>float_div (float_add a b) 2 - (a + b) / 2\<bar> \<le> 1 / 2 ^ 49"
    and "\<bar>float_div (float_add a b) 2\<bar> \<le> 127"
proof -
  have "\<bar>a + b\<bar> < pow2 5" using assms by (simp add: pow2_def)
  from fl_near[OF this] have s: "\<bar>fl (a + b) - (a + b)\<bar> \<le> 1 / 2 ^ 49"
    by (simp add: pow2_def)
  then have sb: "\<bar>fl (a + b) / 2\<bar> < pow2 4" using assms by (simp add: pow2_def abs_if split: if_splits)
  from fl_near[OF sb] have h: "\<bar>fl (fl (a + b) / 2) - fl (a + b) / 2\<bar> \<le> 1 / 2 ^ 50"
    by (simp add: pow2_def)
  have e: "(1::rat) / 2 ^ 49 = 2 * (1 / 2 ^ 50)" by simp
  from halve_error[OF s[unfolded e] h]
  show "\<bar>float_div (float_add a b) 2 - (a + b) / 2\<bar> \<le> 1 / 2 ^ 49"
    unfolding float_div_def float_add_def e .
  from sb h show "\<bar>float_div (float_add a b) 2\<bar> \<le> 127"
    unfolding float_div_def float_add_def by (simp add: pow2_def abs_if split: if_splits)
qed

text \<open>
  Claim C1, as the code has it. For grades in 0..10 the final average is
  \<^verbatim>\<open>round(m, 2)\<close>, where \<open>m\<close> is the sum of the two largest grades, halved, both
  operations in double arithmetic; it lies within \<open>1/200 + 2 ^ - 46\<close> of the exact mean
  of the two largest grades, and it is the same for all six orders of the arguments. A
  grade outside 0..10 makes the call fail with the out-of-range error.
\<close>

theorem calculate_ufrpe_average_double_mean:
  "(0 \<le> n1 \<and> n1 \<le> 10 \<and> 0 \<le> n2 \<and> n2 \<le> 10 \<and> 0 \<le> n3 \<and> n3 \<le> 10 \<longrightarrow>
      calculate_ufrpe_average n1 n2 n3
        = Inr (py_round2 (float_div
                 (float_add (max n1 (max n2 n3)) (max (min n1 n2) (min (max n1 n2) n3))) 2))
      \<and> \<bar>py_round2 (float_div
             (float_add (max n1 (max n2 n3)) (max (min n1 n2) (min (max n1 n2) n3))) 2)
           - (max n1 (max n2 n3) + max (min n1 n2) (min (max n1 n2) n3)) / 2\<bar>
          \<le> 1 / 200 + 1 / 2 ^ 46
      \<and> calculate_ufrpe_average n1 n3 n2 = calculate_ufrpe_average n1 n2 n3
      \<and> calculate_ufrpe_average n2 n1 n3 = calculate_ufrpe_average n1 n2 n3
      \<and> calculate_ufrpe_average n2 n3 n1 = calculate_ufrpe_average n1 n2 n3
      \<and> calculate_ufrpe_average n3 n1 n2 = calculate_ufrpe_average n1 n2 n3
      \<and> calculate_ufrpe_average n3 n2 n1 = calculate_ufrpe_average n1 n2 n3)
   \<and> (\<not> (0 \<le> n1 \<and> n1 \<le> 10 \<and> 0 \<le> n2 \<and> n2 \<le> 10 \<and> 0 \<le> n3 \<and> n3 \<le> 10) \<longrightarrow>
      calculate_ufrpe_average n1 n2 n3 = Inl OutOfRange)"
proof -
  define hi where "hi = max n1 (max n2 n3)"
  define mid where "mid = max (min n1 n2) (min (max n1 n2) n3)"
  have near: "\<bar>py_round2 (float_div (float_add hi mid) 2) - (hi + mid) / 2\<bar>
                \<le> 1 / 200 + 1 / 2 ^ 46"
    if r: "0 \<le> n1 \<and> n1 \<le> 10 \<and> 0 \<le> n2 \<and> n2 \<le> 10 \<and> 0 \<le> n3 \<and> n3 \<le> 10"
  proof -
    have b: "0 \<le> hi" "hi \<le> 10" "0 \<le> mid" "mid \<le> 10"
      using r by (auto simp: hi_def mid_def min_def max_def)
    note m = double_mean_near[OF b]
    from py_round2_near[OF m(2)] m(1)
    have "\<bar>py_round2 (float_div (float_add hi mid) 2) - (hi + mid) / 2\<bar>
            \<le> 1 / 200 + 1 / 2 ^ 47 + 1 / 2 ^ 49" by linarith
    also have "\<dots> \<le> 1 / 200 + 1 / 2 ^ 46" by simp
    finally show ?thesis .
  qed
  show ?thesis
    using near
    unfolding calculate_ufrpe_average_eq median3_perm max3_perm hi_def mid_def by simp
qed

lemma grade_values:
  "py_round2 (float_div (float_add 10 8) 2) = 9"
  "py_round2 (float_div (float_add (fl (999 / 100)) (fl (998 / 100))) 2) = fl (998 / 100)"
  by code_simp+

theorem calculate_ufrpe_average_double_mean_witness:
  "calculate_ufrpe_average 10 8 2 = Inr 9 \<and> calculate_ufrpe_average 2 10 8 = Inr 9
   \<and> calculate_ufrpe_average 8 2 10 = Inr 9
   \<and> calculate_ufrpe_average 11 0 0 = Inl OutOfRange
   \<and> calculate_ufrpe_average 5 (-1 / 100) 5 = Inl OutOfRange"
  using calculate_ufrpe_average_double_mean [of 10 8 2]
    calculate_ufrpe_average_double_mean [of 11 0 0]
    calculate_ufrpe_average_double_mean [of 5 "-1 / 100" 5]
  by (simp add: grade_values)

text \<open>
  The final average is not always the exact mean of the two largest grades rounded to
  two decimals. The grades 0.25, \<open>2 ^ - 60\<close> and 0 are doubles in range; their two
  largest have the mean \<open>1/8 + 2 ^ - 61\<close>, which is nearer to 0.13 than to 0.12, but the
  sum of doubles is 0.25, the halved sum 0.125, and \<^verbatim>\<open>round(0.125, 2)\<close> is the double
  0.12.
\<close>

theorem calculate_ufrpe_average_not_exact_mean:
  "is_double (1 / 4) \<and> is_double (1 / 2 ^ 60)
   \<and> calculate_ufrpe_average (1 / 4) (1 / 2 ^ 60) 0 = Inr (fl (12 / 100))
   \<and> round2 ((1 / 4 + 1 / 2 ^ 60) / 2) = 13 / 100
   \<and> fl (12 / 100) \<noteq> fl (13 / 100)"
  by code_simp

lemma float_sub_near:
  assumes "0 \<le> x" "x \<le> 10"
  shows "\<bar>float_sub 10 x - (10 - x)\<bar> \<le> 1 / 2 ^ 50" and "\<bar>float_sub 10 x\<bar> \<le> 127"
proof -
  have "\<bar>10 - x\<bar> < pow2 4" using assms by (simp add: pow2_def)
  from fl_near[OF this] show s: "\<bar>float_sub 10 x - (10 - x)\<bar> \<le> 1 / 2 ^ 50"
    by (simp add: pow2_def float_sub_def)
  have "(1::rat) / 2 ^ 50 \<le> 1" by simp
  with s assms show "\<bar>float_sub 10 x\<bar> \<le> 127" by linarith
qed

lemma add_errors:
  fixes r y z e1 e2 :: rat
  shows "\<bar>r - y\<bar> \<le> e1 \<Longrightarrow> \<bar>y - z\<bar> \<le> e2 \<Longrightarrow> \<bar>r - z\<bar> \<le> e1 + e2"
  by linarith

text \<open>
  Claim C6, as the code has it. For an average in 0..10 no remedial grade is returned
  when the average is at least 7.0 or below 3.0; when it is at least 3.0 and below 7.0
  the result is \<^verbatim>\<open>round(10 - average, 2)\<close> with the subtraction in double arithmetic,
  which lies within \<open>1/200 + 2 ^ - 46\<close> of \<open>10 - average\<close>. So 3.0 gives 7.00 and 7.0
  gives nothing. Outside 0..10 the call fails with the out-of-range error.
\<close>

theorem calculate_final_exam_grade_double:
  "(0 \<le> x \<and> x \<le> 10 \<longrightarrow>
      (x \<ge> 7 \<or> x < 3 \<longrightarrow> calculate_final_exam_grade x = Inr None)
      \<and> (3 \<le> x \<and> x < 7 \<longrightarrow>
            calculate_final_exam_grade x = Inr (Some (py_round2 (float_sub 10 x)))
            \<and> \<bar>py_round2 (float_sub 10 x) - (10 - x)\<bar> \<le> 1 / 200 + 1 / 2 ^ 46))
   \<and> (\<not> (0 \<le> x \<and> x \<le> 10) \<longrightarrow> calculate_final_exam_grade x = Inl OutOfRange)
   \<and> calculate_final_exam_grade 3 = Inr (Some 7)
   \<and> calculate_final_exam_grade 7 = Inr None"
proof -
  have near: "\<bar>py_round2 (float_sub 10 x) - (10 - x)\<bar> \<le> 1 / 200 + 1 / 2 ^ 46"
    if r: "0 \<le> x \<and> x \<le> 10"
  proof -
    from r have b: "0 \<le> x" "x \<le> 10" by auto
    note s = float_sub_near[OF b]
    from add_errors[OF py_round2_near[OF s(2)] s(1)]
    have "\<bar>py_round2 (float_sub 10 x) - (10 - x)\<bar> \<le> 1 / 200 + 1 / 2 ^ 47 + 1 / 2 ^ 50" .
    also have "\<dots> \<le> 1 / 200 + 1 / 2 ^ 46" by simp
    finally show ?thesis .
  qed
  have v: "py_round2 (float_sub 10 3) = 7" by code_simp
  show ?thesis
    using near by (simp add: calculate_final_exam_grade_def Let_def v)
qed

lemma final_exam_values:
  "fl (699 / 100) < 7" "3 \<le> fl (699 / 100)" "fl (299 / 100) < 3" "0 \<le> fl (299 / 100)"
  "py_round2 (float_sub 10 (fl (699 / 100))) = fl (301 / 100)"
  by code_simp+

theorem calculate_final_exam_grade_double_witness:
  "calculate_final_exam_grade (fl (699 / 100)) = Inr (Some (fl (301 / 100)))
   \<and> calculate_final_exam_grade (fl (299 / 100)) = Inr None
   \<and> calculate_final_exam_grade 10 = Inr None
   \<and> calculate_final_exam_grade (1001 / 100) = Inl OutOfRange
   \<and> calculate_final_exam_grade (-1) = Inl OutOfRange"
  using calculate_final_exam_grade_double [of "fl (699 / 100)"]
    calculate_final_exam_grade_double [of "fl (299 / 100)"]
    calculate_final_exam_grade_double [of 10]
    calculate_final_exam_grade_double [of "1001 / 100"]
    calculate_final_exam_grade_double [of "-1"]
    final_exam_values
  by simp

text \<open>
  The remedial grade is not always \<open>10 - average\<close> rounded to two decimals. The average
  \<open>3.125 + 2 ^ - 51\<close> is a double; \<open>10\<close> minus it is below 6.875 and rounds to 6.87,
  but the difference of doubles is 6.875 and \<^verbatim>\<open>round(6.875, 2)\<close> is the double 6.88.
\<close>

theorem calculate_final_exam_grade_not_exact:
  "is_double (25 / 8 + 1 / 2 ^ 51)
   \<and> calculate_final_exam_grade (25 / 8 + 1 / 2 ^ 51) = Inr (Some (fl (688 / 100)))
   \<and> round2 (10 - (25 / 8 + 1 / 2 ^ 51)) = 687 / 100
   \<and> fl (688 / 100) \<noteq> fl (687 / 100)"
  by code_simp

lemma progress_near:
  assumes "0 \<le> q" "q \<le> 1"
  shows "\<bar>float_mul (fl q) 100 - 100 * q\<bar> \<le> 1 / 2 ^ 45"
    and "\<bar>float_mul (fl q) 100\<bar> \<le> 127"
proof -
  have "\<bar>q\<bar> < pow2 1" using assms by (simp add: pow2_def)
  from fl_near[OF this] have a: "\<bar>fl q - q\<bar> \<le> 1 / 2 ^ 53" by (simp add: pow2_def)
  have t: "(1::rat) / 2 ^ 53 \<le> 1 / 100" by simp
  from a t assms have "\<bar>fl q * 100\<bar> \<le> 101" by linarith
  then have "\<bar>fl q * 100\<bar> < pow2 7" by (simp add: pow2_def)
  from fl_near[OF this] have b: "\<bar>fl (fl q * 100) - fl q * 100\<bar> \<le> 1 / 2 ^ 47"
    by (simp add: pow2_def)
  have c: "\<bar>fl q * 100 - 100 * q\<bar> \<le> 100 * (1 / 2 ^ 53)" using a by linarith
  have "\<bar>fl (fl q * 100) - 100 * q\<bar> \<le> 1 / 2 ^ 47 + 100 * (1 / 2 ^ 53)"
    by (rule add_errors[OF b c])
  also have "\<dots> \<le> 1 / 2 ^ 45" by simp
  finally show "\<bar>float_mul (fl q) 100 - 100 * q\<bar> \<le> 1 / 2 ^ 45"
    by (simp add: float_mul_def)
  have "(1::rat) / 2 ^ 47 \<le> 1" by simp
  with b \<open>\<bar>fl q * 100\<bar> \<le> 101\<close> show "\<bar>float_mul (fl q) 100\<bar> \<le> 127"
    unfolding float_mul_def by linarith
qed

text \<open>
  Claim C9, as the code has it. A total of hours that is zero or negative fails with the
  configuration error; otherwise the completed hours are clamped into \<open>0..total\<close> and
  the result is \<^verbatim>\<open>round((c / total) * 100, 2)\<close> for the clamped hours \<open>c\<close>, the
  quotient and the product in double arithmetic; it lies within \<open>1/200 + 2 ^ - 44\<close> of
  \<open>100 * c / total\<close>. \<open>(-5, 100)\<close> gives 0.00 and \<open>(150, 100)\<close> gives 100.00.
\<close>

theorem calculate_course_progress_double:
  "(total_hours \<le> 0 \<longrightarrow>
      calculate_course_progress completed_hours total_hours = Inl InvalidConfiguration)
   \<and> (0 < total_hours \<longrightarrow>
      calculate_course_progress completed_hours total_hours
        = Inr (py_round2 (float_mul
                 (float_div (of_int (max 0 (min completed_hours total_hours)))
                    (of_int total_hours)) 100))
      \<and> \<bar>py_round2 (float_mul
             (float_div (of_int (max 0 (min completed_hours total_hours)))
                (of_int total_hours)) 100)
           - 100 * of_int (max 0 (min completed_hours total_hours)) / of_int total_hours\<bar>
          \<le> 1 / 200 + 1 / 2 ^ 44)
   \<and> calculate_course_progress (- 5) 100 = Inr 0
   \<and> calculate_course_progress 150 100 = Inr 100"
proof -
  define c where "c = max 0 (min completed_hours total_hours)"
  have eq: "calculate_course_progress completed_hours total_hours
        = Inr (py_round2 (float_mul (float_div (of_int c) (of_int total_hours)) 100))"
    if "0 < total_hours"
    using that by (simp add: calculate_course_progress_def Let_def c_def max_def min_def)
  have near: "\<bar>py_round2 (float_mul (float_div (of_int c) (of_int total_hours)) 100)
                - 100 * of_int c / of_int total_hours\<bar> \<le> 1 / 200 + 1 / 2 ^ 44"
    if t: "0 < total_hours"
  proof -
    define q :: rat where "q = of_int c / of_int total_hours"
    have c: "0 \<le> c" "c \<le> total_hours" using t by (auto simp: c_def)
    have q: "0 \<le> q" "q \<le> 1" using c t by (auto simp: q_def)
    note p = progress_near[OF q]
    from add_errors[OF py_round2_near[OF p(2)] p(1)]
    have "\<bar>py_round2 (float_mul (fl q) 100) - 100 * q\<bar> \<le> 1 / 200 + 1 / 2 ^ 47 + 1 / 2 ^ 45" .
    also have "\<dots> \<le> 1 / 200 + 1 / 2 ^ 44" by simp
    finally show ?thesis by (simp add: q_def float_div_def)
  qed
  have v: "calculate_course_progress (- 5) 100 = Inr 0"
    "calculate_course_progress 150 100 = Inr 100" by code_simp+
  show ?thesis
    using eq near v unfolding c_def
    by (simp add: calculate_course_progress_def)
qed

lemma progress_values:
  "py_round2 (float_mul (float_div 1 3) 100) = fl (3333 / 100)"
  "py_round2 (float_mul (float_div 1605 3210) 100) = 50"
  "py_round2 (float_mul (float_div 2000 3210) 100) = fl (6231 / 100)"
  by code_simp+

theorem calculate_course_progress_double_witness:
  "calculate_course_progress 0 0 = Inl InvalidConfiguration
   \<and> calculate_course_progress 10 (- 3) = Inl InvalidConfiguration
   \<and> calculate_course_progress 1 3 = Inr (fl (3333 / 100))
   \<and> calculate_course_progress 1605 3210 = Inr 50
   \<and> calculate_course_progress 2000 3210 = Inr (fl (6231 / 100))"
  using calculate_course_progress_double [of 0 0]
    calculate_course_progress_double [of "- 3" 10]
    calculate_course_progress_double [of 3 1]
    calculate_course_progress_double [of 3210 1605]
    calculate_course_progress_double [of 3210 2000]
  by (simp add: progress_values)

text \<open>
  The progress is not always \<open>100 * c / total\<close> rounded to two decimals. For 51 of 160
  hours the exact value is 31.875, which Python's own \<^verbatim>\<open>round\<close> would take to 31.88,
  but the product of doubles is below 31.875 and the result is the double 31.87; for 93
  of 160 hours the exact value 58.125 would go to 58.12 and the result is 58.13. For
  \<open>2 ^ 55 + 1\<close> of \<open>2 ^ 60\<close> hours the exact value is above 3.125 and nearer to 3.13,
  and the result is the double 3.12.
\<close>

theorem calculate_course_progress_not_exact:
  "calculate_course_progress 51 160 = Inr (fl (3187 / 100))
   \<and> round2 (100 * 51 / 160) = 3188 / 100
   \<and> fl (3187 / 100) \<noteq> fl (3188 / 100)
   \<and> calculate_course_progress 93 160 = Inr (fl (5813 / 100))
   \<and> round2 (100 * 93 / 160) = 5812 / 100
   \<and> fl (5813 / 100) \<noteq> fl (5812 / 100)
   \<and> calculate_course_progress (2 ^ 55 + 1) (2 ^ 60) = Inr (fl (312 / 100))
   \<and> round2 (100 * (2 ^ 55 + 1) / 2 ^ 60) = 313 / 100
   \<and> fl (312 / 100) \<noteq> fl (313 / 100)"
  by code_simp

text \<open>
  Claim C5. The status is decided in strict priority order: Completed when the code has
  a completed average of at least 7.0, else Studying when the code is enrolled, else
  Available when all prerequisites are satisfied, else Blocked. A discipline completed
  with 8.0 that is also enrolled is Completed.
\<close>

theorem validate_discipline_status_priority:
  "validate_discipline_status code prereqs completed enrolled =
     (if code \<in> dom completed \<and> the (completed code) \<ge> 7 then Completed
      else if code \<in> set enrolled then Studying
      else if allSatisfied prereqs completed then Available
      else Blocked)
   \<and> (completed code = Some 8 \<and> code \<in> set enrolled \<longrightarrow>
        validate_discipline_status code prereqs completed enrolled = Completed)"
  by (auto simp: validate_discipline_status_def allSatisfied_def split: option.splits prod.splits)

theorem validate_discipline_status_priority_witness:
  "validate_discipline_status ''X'' [''A''] [''X'' \<mapsto> 8] [''X''] = Completed
   \<and> validate_discipline_status ''X'' [''A''] [''X'' \<mapsto> 6] [''X''] = Studying
   \<and> validate_discipline_status ''X'' [''A''] [''A'' \<mapsto> 7] [''Y''] = Available
   \<and> validate_discipline_status ''X'' [''A''] [''A'' \<mapsto> 69 / 10] [''Y''] = Blocked"
proof -
  have a: "allSatisfied [''A''] [''A'' \<mapsto> 7]" "\<not> allSatisfied [''A''] [''A'' \<mapsto> 69 / 10]"
    by (simp_all add: allSatisfied_def check_prerequisites_def)
  show ?thesis
    using validate_discipline_status_priority [of "''X''" "[''A'']" "[''X'' \<mapsto> 8]" "[''X'']"]
      validate_discipline_status_priority [of "''X''" "[''A'']" "[''X'' \<mapsto> 6]" "[''X'']"]
      validate_discipline_status_priority [of "''X''" "[''A'']" "[''A'' \<mapsto> 7]" "[''Y'']"]
      validate_discipline_status_priority [of "''X''" "[''A'']" "[''A'' \<mapsto> 69 / 10]" "[''Y'']"]
    by (simp add: a dom_def)
qed

subsection \<open>Schedule conflict detector\<close>

lemma py_split_nonempty: "py_split sep s \<noteq> []"
  by (induction s) (auto split: list.splits)

lemma py_split_single: "sep \<notin> set s \<Longrightarrow> py_split sep s = [s]"
  by (induction s) auto

lemma py_split_append:
  "sep \<notin> set h \<Longrightarrow> py_split sep (h @ sep # m) = h # py_split sep m"
  by (induction h) auto

lemma py_split_one: "py_split sep s = [m] \<Longrightarrow> s = m \<and> sep \<notin> set m"
  by (induction s arbitrary: m) (auto simp: py_split_nonempty split: if_splits list.splits)

lemma py_split_two:
  "py_split sep s = [h, m] \<longleftrightarrow> s = h @ sep # m \<and> sep \<notin> set h \<and> sep \<notin> set m"
proof
  assume "py_split sep s = [h, m]"
  then show "s = h @ sep # m \<and> sep \<notin> set h \<and> sep \<notin> set m"
  proof (induction s arbitrary: h)
    case Nil
    then show ?case by simp
  next
    case (Cons c cs)
    show ?case
    proof (cases "c = sep")
      case True
      with Cons.prems have h: "h = []" and m: "py_split sep cs = [m]" by auto
      from py_split_one[OF m] show ?thesis using True h by simp
    next
      case False
      with Cons.prems obtain p where p: "py_split sep cs = [p, m]" and h: "h = c # p"
        by (auto split: list.splits)
      from Cons.IH[OF p] show ?thesis using False h by simp
    qed
  qed
next
  assume "s = h @ sep # m \<and> sep \<notin> set h \<and> sep \<notin> set m"
  then show "py_split sep s = [h, m]"
    by (simp add: py_split_append py_split_single)
qed

lemma time_to_minutes_cases:
  "time_to_minutes s =
     (case py_split CHR '':'' s of
        [h, m] \<Rightarrow> (case (py_int h, py_int m) of
                     (Some H, Some M) \<Rightarrow>
                       if 0 \<le> H \<and> H < 24 \<and> 0 \<le> M \<and> M < 60 then Inr (H * 60 + M)
                       else Inl MalformedTime
                   | _ \<Rightarrow> Inl MalformedTime)
      | _ \<Rightarrow> Inl MalformedTime)"
  by (auto simp: time_to_minutes_def split: list.splits option.splits)



text \<open>
  What \<^verbatim>\<open>int\<close> accepts: a string of decimal digits is read as its decimal number, up
  to 4300 digits; and whatever is accepted has a digit and, beside digits, only blanks,
  a sign and underscores.
\<close>

lemma digit_plain:
  "is_digit c \<Longrightarrow> \<not> is_space c \<and> c \<noteq> CHR ''-'' \<and> c \<noteq> CHR ''+'' \<and> c \<noteq> CHR ''_''
     \<and> 0 \<le> digit_val c \<and> digit_val c \<le> 9"
  by (auto simp: is_digit_def is_space_def digit_val_def)

lemma py_digits_all_digits:
  "\<forall>c \<in> set ds. is_digit c \<Longrightarrow>
     py_digits acc ds = Some (foldl (\<lambda>n c. n * 10 + digit_val c) acc ds)"
  by (induction acc ds rule: py_digits.induct) auto


lemma strip_digits:
  assumes "ds \<noteq> []" and "\<forall>c \<in> set ds. is_digit c"
  shows "dropWhile is_space ds = ds" and "rev (dropWhile is_space (rev ds)) = ds"
proof -
  from assms obtain c r where d: "ds = c # r" by (cases ds) auto
  with assms(2) have "\<not> is_space c" using digit_plain by auto
  then show "dropWhile is_space ds = ds" by (simp add: d)
  from assms have "rev ds \<noteq> []" "\<forall>c \<in> set (rev ds). is_digit c" by auto
  then obtain c' r' where e: "rev ds = c' # r'" "is_digit c'" by (cases "rev ds") auto
  then have "\<not> is_space c'" using digit_plain by auto
  then have "dropWhile is_space (rev ds) = rev ds" by (simp add: e)
  then show "rev (dropWhile is_space (rev ds)) = ds" by simp
qed

lemma py_int_digits:
  assumes "ds \<noteq> []" and "\<forall>c \<in> set ds. is_digit c"
  shows "py_int ds = (if length ds \<le> 4300
                      then Some (foldl (\<lambda>n c. n * 10 + digit_val c) 0 ds) else None)"
proof -
  from assms obtain c r where d: "ds = c # r" by (cases ds) auto
  with assms(2) have c: "is_digit c" "c \<noteq> CHR ''-''" "c \<noteq> CHR ''+''" "\<not> is_space c"
    and r: "\<forall>c \<in> set r. is_digit c"
    using digit_plain by auto
  have f: "filter is_digit r = r" using r by simp
  have s2: "rev (dropWhile is_space (rev r @ [c])) = c # r"
    using strip_digits(2)[OF assms] by (simp add: d)
  have m: "map_option (\<lambda>n. n) = (\<lambda>x :: int option. x)"
    by (rule ext) (simp add: option.map_ident)
  show ?thesis
    unfolding d
    by (simp add: py_int_def Let_def c s2 f py_digits_all_digits[OF r] int_max_str_digits_def m)
qed





text \<open>Hours written with 4301 digits are refused, whatever their value.\<close>

lemma time_to_minutes_digit_limit:
  "time_to_minutes (replicate 4301 (CHR ''0'') @ ''1:00'') = Inl MalformedTime"
proof -
  let ?h = "replicate 4301 (CHR ''0'') @ ''1''"
  have d: "\<forall>c \<in> set ?h. is_digit c" by (auto simp: is_digit_def)
  have "py_int ?h = None" using py_int_digits[OF _ d] by simp
  moreover have "py_split CHR '':'' (?h @ CHR '':'' # ''00'') = [?h, ''00'']"
    by (subst py_split_two) auto
  ultimately show ?thesis by (simp add: time_to_minutes_cases)
qed

text \<open>On a string of four digits \<open>HH:MM\<close> the parser reads the two decimal numbers.\<close>

lemma time_to_minutes_HHMM:
  assumes "is_digit a" and "is_digit b" and "is_digit c" and "is_digit d"
  shows "time_to_minutes [a, b, CHR '':'', c, d] =
     (if 10 * digit_val a + digit_val b < 24 \<and> 10 * digit_val c + digit_val d < 60
      then Inr ((10 * digit_val a + digit_val b) * 60 + (10 * digit_val c + digit_val d))
      else Inl MalformedTime)"
proof -
  have n: "a \<noteq> CHR '':''" "b \<noteq> CHR '':''" "c \<noteq> CHR '':''" "d \<noteq> CHR '':''"
    using assms by (auto simp: is_digit_def)
  have s: "py_split CHR '':'' [a, b, CHR '':'', c, d] = [[a, b], [c, d]]"
    using n by simp
  have i: "py_int [a, b] = Some (10 * digit_val a + digit_val b)"
    "py_int [c, d] = Some (10 * digit_val c + digit_val d)"
    using py_int_digits[of "[a, b]"] py_int_digits[of "[c, d]"] assms by simp_all
  have p: "0 \<le> 10 * digit_val a + digit_val b" "0 \<le> 10 * digit_val c + digit_val d"
    using digit_plain[OF assms(1)] digit_plain[OF assms(2)] digit_plain[OF assms(3)]
      digit_plain[OF assms(4)] by linarith+
  show ?thesis
    unfolding time_to_minutes_def s
    using p by (simp add: i)
qed

lemma time_to_minutes_examples: "time_to_minutes ''14:00'' = Inr 840" "time_to_minutes ''16:00'' = Inr 960"
    "time_to_minutes ''16:01'' = Inr 961" "time_to_minutes ''18:00'' = Inr 1080"
  by code_simp+

text \<open>
  Claim C7. When the four times parse to the minutes \<open>a\<close>, \<open>b\<close>, \<open>c\<close>, \<open>d\<close>, the overlap
  test is \<open>a < d \<and> b > c\<close>, so ranges that only touch do not overlap: 14:00-16:00
  against 16:00-18:00 on the same day is no conflict, 14:00-16:01 against 16:00-18:00 is
  one.
\<close>

theorem check_time_overlap_half_open:
  "(time_to_minutes start1 = Inr a \<and> time_to_minutes end1 = Inr b
      \<and> time_to_minutes start2 = Inr c \<and> time_to_minutes end2 = Inr d \<longrightarrow>
        check_time_overlap start1 end1 start2 end2 = Inr (a < d \<and> b > c)
        \<and> (b = c \<or> d = a \<longrightarrow> check_time_overlap start1 end1 start2 end2 = Inr False))
   \<and> check_time_overlap ''14:00'' ''16:00'' ''16:00'' ''18:00'' = Inr False
   \<and> check_time_overlap ''14:00'' ''16:01'' ''16:00'' ''18:00'' = Inr True
   \<and> has_schedule_conflict
        [\<lparr>sch_day = 2, sch_start = ''14:00'', sch_end = ''16:00'', sch_location = ''A''\<rparr>]
        [\<lparr>sch_day = 2, sch_start = ''16:00'', sch_end = ''18:00'', sch_location = ''B''\<rparr>]
       = Inr (False, None)
   \<and> has_schedule_conflict
        [\<lparr>sch_day = 2, sch_start = ''14:00'', sch_end = ''16:01'', sch_location = ''A''\<rparr>]
        [\<lparr>sch_day = 2, sch_start = ''16:00'', sch_end = ''18:00'', sch_location = ''B''\<rparr>]
       = Inr (True, Some \<lparr>ci_day = 2, ci_time1 = ''14:00-16:01'', ci_time2 = ''16:00-18:00''\<rparr>)"
  by (auto simp: check_time_overlap_def time_to_minutes_examples)

theorem check_time_overlap_half_open_witness:
  "check_time_overlap ''14:00'' ''18:00'' ''16:00'' ''16:01'' = Inr True
   \<and> check_time_overlap ''16:00'' ''18:00'' ''14:00'' ''16:00'' = Inr False"
  using check_time_overlap_half_open [of "''14:00''" 840 "''18:00''" 1080 "''16:00''" 960 "''16:01''" 961]
    check_time_overlap_half_open [of "''16:00''" 960 "''18:00''" 1080 "''14:00''" 840 "''16:00''" 960]
  by (simp add: time_to_minutes_examples)

subsection \<open>The invariant of the enrollment lists\<close>

lemma enrollment_inv_iff:
  "enrollment_inv db \<longleftrightarrow>
     (\<forall>(sc, codes) \<in> set (enrollments db).
        distinct codes \<and> set codes \<subseteq> dom (map_of (disciplines db)))"
  by (auto simp: enrollment_inv_def list_all_iff)

lemma set_update_subset: "set (AList.update k v al) \<subseteq> insert (k, v) (set al)"
  by (induction al) auto

lemma dom_map_of_update: "dom (map_of (AList.update k v al)) = insert k (dom (map_of al))"
  by (simp add: dom_map_of_conv_image_fst dom_update)

lemma inv_disciplines_grow:
  assumes "enrollment_inv db" and "enrollments db' = enrollments db"
    and "dom (map_of (disciplines db)) \<subseteq> dom (map_of (disciplines db'))"
  shows "enrollment_inv db'"
  using assms unfolding enrollment_inv_iff by fastforce

lemma inv_create_discipline: "enrollment_inv db \<Longrightarrow> enrollment_inv (create_discipline db d)"
  by (rule inv_disciplines_grow) (auto simp: create_discipline_def Let_def dom_map_of_update)

lemma inv_update_discipline:
  "enrollment_inv db \<Longrightarrow> enrollment_inv (snd (update_discipline db code u))"
  by (cases "map_of (disciplines db) code")
     (auto simp: update_discipline_def Let_def update_conv' intro!: inv_disciplines_grow[of db])

lemma inv_set_grades:
  "enrollment_inv db \<Longrightarrow> enrollment_inv (snd (set_grades db code a b c))"
  by (cases "map_of (disciplines db) code")
     (auto simp: set_grades_def update_conv' intro!: inv_disciplines_grow[of db])

lemma inv_bulk_create:
  "enrollment_inv db \<Longrightarrow> enrollment_inv (snd (bulk_create_disciplines db ds))"
proof (induction ds arbitrary: db)
  case Nil
  then show ?case by simp
next
  case (Cons d ds)
  show ?case
  proof (cases "map_of (disciplines db) (d_code d) = None")
    case True
    have "enrollment_inv (snd (bulk_create_disciplines (create_discipline db d) ds))"
      by (rule Cons.IH) (rule inv_create_discipline[OF Cons.prems])
    with True show ?thesis by (auto split: prod.splits)
  next
    case False
    with Cons show ?thesis by auto
  qed
qed

lemma inv_enrollments_entry:
  assumes "enrollment_inv db" and "disciplines db' = disciplines db"
    and "enrollments db' = AList.update sc codes (enrollments db)"
    and "distinct codes" and "set codes \<subseteq> dom (map_of (disciplines db))"
  shows "enrollment_inv db'"
  using assms set_update_subset[of sc codes "enrollments db"]
  unfolding enrollment_inv_iff by fastforce

lemma inv_create_semester: "enrollment_inv db \<Longrightarrow> enrollment_inv (create_semester db sem)"
  by (rule inv_enrollments_entry[where sc = "sem_code sem" and codes = "[]"])
     (auto simp: create_semester_def)

lemma inv_update_semester:
  "enrollment_inv db \<Longrightarrow> enrollment_inv (snd (update_semester db code u))"
  by (cases "map_of (semesters db) code")
     (auto simp: update_semester_def Let_def enrollment_inv_def)

lemma inv_entry:
  "enrollment_inv db \<Longrightarrow> map_of (enrollments db) sc = Some codes \<Longrightarrow>
     distinct codes \<and> set codes \<subseteq> dom (map_of (disciplines db))"
  unfolding enrollment_inv_iff by (auto dest!: map_of_SomeD)

lemma inv_db_enroll:
  assumes "enrollment_inv db"
  shows "enrollment_inv (snd (db_enroll_discipline db sc dc))"
proof (cases "map_of (enrollments db) sc")
  case None
  then show ?thesis using assms by (simp add: db_enroll_discipline_def)
next
  case (Some codes)
  note e = inv_entry[OF assms Some]
  show ?thesis
  proof (cases "map_of (disciplines db) dc = None \<or> dc \<in> set codes")
    case True
    then show ?thesis using assms Some by (auto simp: db_enroll_discipline_def)
  next
    case False
    then have "snd (db_enroll_discipline db sc dc)
        = db\<lparr>enrollments := AList.update sc (codes @ [dc]) (enrollments db)\<rparr>"
      using Some by (auto simp: db_enroll_discipline_def)
    moreover have "enrollment_inv (db\<lparr>enrollments := AList.update sc (codes @ [dc]) (enrollments db)\<rparr>)"
      by (rule inv_enrollments_entry[OF assms, where sc = sc and codes = "codes @ [dc]"])
         (use e False in auto)
    ultimately show ?thesis by simp
  qed
qed

lemma inv_db_unenroll:
  assumes "enrollment_inv db"
  shows "enrollment_inv (snd (db_unenroll_discipline db sc dc))"
proof (cases "map_of (enrollments db) sc")
  case None
  then show ?thesis using assms by (simp add: db_unenroll_discipline_def)
next
  case (Some codes)
  note e = inv_entry[OF assms Some]
  show ?thesis
  proof (cases "dc \<in> set codes")
    case False
    then show ?thesis using assms Some by (auto simp: db_unenroll_discipline_def)
  next
    case True
    then have "snd (db_unenroll_discipline db sc dc)
        = db\<lparr>enrollments := AList.update sc (remove1 dc codes) (enrollments db)\<rparr>"
      using Some by (auto simp: db_unenroll_discipline_def)
    moreover have "enrollment_inv (db\<lparr>enrollments := AList.update sc (remove1 dc codes) (enrollments db)\<rparr>)"
      by (rule inv_enrollments_entry[OF assms, where sc = sc and codes = "remove1 dc codes"])
         (use e in \<open>auto dest: notin_set_remove1\<close>)
    ultimately show ?thesis by simp
  qed
qed

lemma delete_discipline_enrollments:
  assumes "enrollment_inv db" and "delete_discipline db code = (True, db')"
  shows "\<forall>(sc, codes) \<in> set (enrollments db').
           code \<notin> set codes \<and> distinct codes \<and> set codes \<subseteq> dom (map_of (disciplines db'))"
proof -
  from assms(2) have d: "disciplines db' = AList.delete code (disciplines db)"
    and e: "enrollments db' = map (\<lambda>(semester_code, codes).
              (semester_code, if code \<in> set codes then remove1 code codes else codes))
            (enrollments db)"
    by (auto simp: delete_discipline_def split: if_splits)
  have dom: "dom (map_of (disciplines db')) = dom (map_of (disciplines db)) - {code}"
    by (auto simp: d delete_conv' dom_def)
  show ?thesis
  proof (clarify)
    fix sc codes assume "(sc, codes) \<in> set (enrollments db')"
    then obtain codes0 where m: "(sc, codes0) \<in> set (enrollments db)"
      and c: "codes = (if code \<in> set codes0 then remove1 code codes0 else codes0)"
      unfolding e by auto
    from assms(1) m have i: "distinct codes0" "set codes0 \<subseteq> dom (map_of (disciplines db))"
      unfolding enrollment_inv_iff by auto
    from i c have "code \<notin> set codes" by auto
    moreover from i c have "distinct codes" by auto
    moreover from i c have "set codes \<subseteq> dom (map_of (disciplines db)) - {code}"
      by auto
    ultimately show "code \<notin> set codes \<and> distinct codes \<and> set codes \<subseteq> dom (map_of (disciplines db'))"
      using dom by simp
  qed
qed

lemma inv_delete_discipline:
  assumes "enrollment_inv db"
  shows "enrollment_inv (snd (delete_discipline db code))"
proof (cases "map_of (disciplines db) code = None")
  case True
  then show ?thesis using assms by (simp add: delete_discipline_def)
next
  case False
  then obtain db' where d: "delete_discipline db code = (True, db')"
    by (simp add: delete_discipline_def)
  from delete_discipline_enrollments[OF assms d] show ?thesis
    unfolding d enrollment_inv_iff by auto
qed

lemma db_enroll_discipline_True:
  assumes "db_enroll_discipline db sc dc = (True, db')"
  shows "\<exists>codes. map_of (enrollments db) sc = Some codes \<and> dc \<notin> set codes
           \<and> map_of (disciplines db) dc \<noteq> None
           \<and> db' = db\<lparr>enrollments := AList.update sc (codes @ [dc]) (enrollments db)\<rparr>"
  using assms by (auto simp: db_enroll_discipline_def split: option.splits if_splits)

lemma db_enroll_discipline_False:
  "db_enroll_discipline db sc dc = (False, db') \<Longrightarrow> db' = db"
  by (auto simp: db_enroll_discipline_def split: option.splits if_splits)

lemma delete_discipline_gone:
  "delete_discipline db code = (True, db') \<Longrightarrow> map_of (disciplines db') code = None"
  by (auto simp: delete_discipline_def delete_conv' split: if_splits)

lemma enrollment_inv_run_op: "enrollment_inv db \<Longrightarrow> enrollment_inv (run_op x db)"
  by (cases x)
     (simp_all add: inv_create_discipline inv_update_discipline inv_delete_discipline
        inv_bulk_create inv_create_semester inv_update_semester inv_db_enroll inv_db_unenroll
        inv_set_grades)

lemma enrollment_inv_fold: "enrollment_inv db \<Longrightarrow> enrollment_inv (fold run_op ops db)"
  by (induction ops arbitrary: db) (simp_all add: enrollment_inv_run_op)

text \<open>
  Claim C10. In every enrollment list no code occurs twice and every code is a key of
  the disciplines dict; each operation of the store keeps this, and so does every
  sequence of operations. Enrolling changes the store only by appending a code that was
  absent from the list and names a stored discipline; deleting a discipline removes its
  key and leaves its code in no enrollment list.
\<close>

theorem enrollment_inv_preserved:
  assumes "enrollment_inv db"
  shows "enrollment_inv (run_op x db)
     \<and> enrollment_inv (fold run_op ops db)
     \<and> (\<forall>(sc, codes) \<in> set (enrollments db).
          distinct codes \<and> (\<forall>c \<in> set codes. get_discipline db c \<noteq> None))
     \<and> (db_enroll_discipline db sc dc = (True, db') \<longrightarrow>
          (\<exists>codes. map_of (enrollments db) sc = Some codes \<and> dc \<notin> set codes
             \<and> get_discipline db dc \<noteq> None
             \<and> db' = db\<lparr>enrollments := AList.update sc (codes @ [dc]) (enrollments db)\<rparr>))
     \<and> (db_enroll_discipline db sc dc = (False, db') \<longrightarrow> db' = db)
     \<and> (delete_discipline db code = (True, db') \<longrightarrow>
          get_discipline db' code = None
          \<and> (\<forall>(sc, codes) \<in> set (enrollments db'). code \<notin> set codes))"
proof (intro conjI impI)
  show "enrollment_inv (run_op x db)" by (rule enrollment_inv_run_op[OF assms])
  show "enrollment_inv (fold run_op ops db)" by (rule enrollment_inv_fold[OF assms])
  show "\<forall>(sc, codes) \<in> set (enrollments db).
          distinct codes \<and> (\<forall>c \<in> set codes. get_discipline db c \<noteq> None)"
    using assms unfolding enrollment_inv_iff get_discipline_def by auto
next
  assume "db_enroll_discipline db sc dc = (True, db')"
  from db_enroll_discipline_True[OF this]
  show "\<exists>codes. map_of (enrollments db) sc = Some codes \<and> dc \<notin> set codes
             \<and> get_discipline db dc \<noteq> None
             \<and> db' = db\<lparr>enrollments := AList.update sc (codes @ [dc]) (enrollments db)\<rparr>"
    by (simp add: get_discipline_def)
next
  assume "db_enroll_discipline db sc dc = (False, db')"
  then show "db' = db" by (rule db_enroll_discipline_False)
next
  assume d: "delete_discipline db code = (True, db')"
  then show "get_discipline db' code = None"
    by (simp add: get_discipline_def delete_discipline_gone)
  from delete_discipline_enrollments[OF assms d]
  show "\<forall>(sc, codes) \<in> set (enrollments db'). code \<notin> set codes" by auto
qed

lemma sample_db_inv: "enrollment_inv (sample_db [''14117'', ''14203''])"
  by (simp add: enrollment_inv_def sample_db_def)

theorem enrollment_inv_preserved_witness:
  "enrollment_inv (sample_db [''14117'', ''14203''])
   \<and> enrollment_inv (run_op (DeleteDiscipline ''14117'') (sample_db [''14117'', ''14203'']))
   \<and> enrollments (run_op (DeleteDiscipline ''14117'') (sample_db [''14117'', ''14203'']))
       = [(''2024.1'', [''14203'']), (''2024.2'', [])]
   \<and> enrollments (run_op (EnrollDiscipline ''2024.1'' ''06214'') (sample_db [''14117'', ''14203'']))
       = [(''2024.1'', [''14117'', ''14203'', ''06214'']), (''2024.2'', [])]
   \<and> run_op (EnrollDiscipline ''2024.1'' ''14203'') (sample_db [''14117'', ''14203''])
       = sample_db [''14117'', ''14203'']"
proof -
  have e: "enrollments (run_op (DeleteDiscipline ''14117'') (sample_db [''14117'', ''14203'']))
       = [(''2024.1'', [''14203'']), (''2024.2'', [])]"
    by (simp add: delete_discipline_def sample_db_def)
  have f: "enrollments (run_op (EnrollDiscipline ''2024.1'' ''06214'') (sample_db [''14117'', ''14203'']))
       = [(''2024.1'', [''14117'', ''14203'', ''06214'']), (''2024.2'', [])]"
    by (simp add: db_enroll_discipline_def sample_db_def)
  have g: "run_op (EnrollDiscipline ''2024.1'' ''14203'') (sample_db [''14117'', ''14203''])
       = sample_db [''14117'', ''14203'']"
    by (simp add: db_enroll_discipline_def sample_db_def)
  from enrollment_inv_preserved [OF sample_db_inv, of "DeleteDiscipline ''14117''"]
  show ?thesis using sample_db_inv e f g by simp
qed

subsection \<open>Enrollment workflow\<close>

lemma completed_loop_Some:
  "completed_loop ds acc c = Some v \<Longrightarrow>
     acc c = Some v \<or> (7 \<le> v \<and> (\<exists>x \<in> set ds. d_code x = c \<and> d_media_final x = Some v))"
proof (induction ds arbitrary: acc)
  case Nil
  then show ?case by simp
next
  case (Cons y ds)
  show ?case
  proof (cases "\<exists>m. d_media_final y = Some m \<and> 7 \<le> m")
    case True
    then obtain m where m: "d_media_final y = Some m" "7 \<le> m" by blast
    with Cons.prems have "completed_loop ds (acc(d_code y \<mapsto> m)) c = Some v" by auto
    from Cons.IH[OF this] m show ?thesis by (auto split: if_splits)
  next
    case False
    with Cons.prems have "completed_loop ds acc c = Some v"
      by (auto split: option.splits if_splits)
    from Cons.IH[OF this] show ?thesis by auto
  qed
qed

lemma completed_loop_keeps: "acc c \<noteq> None \<Longrightarrow> completed_loop ds acc c \<noteq> None"
  by (induction ds arbitrary: acc) (auto split: option.splits)

lemma completed_loop_has:
  "x \<in> set ds \<Longrightarrow> d_media_final x = Some v \<Longrightarrow> 7 \<le> v \<Longrightarrow>
     completed_loop ds acc (d_code x) \<noteq> None"
proof (induction ds arbitrary: acc)
  case Nil
  then show ?case by simp
next
  case (Cons y ds)
  show ?case
  proof (cases "x = y")
    case True
    have "completed_loop ds (acc(d_code y \<mapsto> v)) (d_code y) \<noteq> None"
      by (rule completed_loop_keeps) simp
    with True Cons.prems show ?thesis by auto
  next
    case False
    with Cons.prems have "x \<in> set ds" by simp
    from Cons.IH[OF this Cons.prems(2,3)] show ?thesis
      by (auto split: option.splits)
  qed
qed

lemma conflict_loop_first:
  assumes "\<forall>x \<in> set pre. has_schedule_conflict s (d_schedules x) = Inr (False, None)"
    and "has_schedule_conflict s (d_schedules e) = Inr (True, info)"
  shows "conflict_loop s (pre @ e # post) = Inr (Some (d_name e))"
  using assms by (induction pre) auto

lemma api_enroll_discipline_found:
  assumes "get_semester db sc = Some sem" and "get_discipline db dc = Some d"
  shows "api_enroll_discipline db sc dc =
     (if \<not> allSatisfied (d_prerequisites d) (completed_of db)
      then (Inr (PrerequisitesNotMet
                  (map (\<lambda>c. d_name (the (get_discipline db c)))
                     (filter (\<lambda>c. get_discipline db c \<noteq> None)
                        (missingPrerequisites (d_prerequisites d) (completed_of db))))), db)
      else (case conflict_loop (d_schedules d) (get_enrolled_disciplines db sc) of
              Inl e \<Rightarrow> (Inl e, db)
            | Inr (Some conflicting) \<Rightarrow> (Inr (ScheduleConflict conflicting), db)
            | Inr None \<Rightarrow>
                (case db_enroll_discipline db sc dc of
                   (True, db') \<Rightarrow> (Inr EnrolledSuccessfully, db')
                 | (False, db') \<Rightarrow> (Inr AlreadyEnrolled, db'))))"
  using assms
  by (simp add: api_enroll_discipline_def allSatisfied_def missingPrerequisites_def Let_def
      split: prod.splits)

lemma completed_loop_other:
  "c \<notin> d_code ` set ds \<Longrightarrow> completed_loop ds acc c = acc c"
  by (induction ds arbitrary: acc) (auto split: option.splits)

lemma completed_loop_distinct:
  assumes "distinct (map d_code ds)" and "x \<in> set ds"
  shows "completed_loop ds acc (d_code x) =
     (case d_media_final x of
        None \<Rightarrow> acc (d_code x)
      | Some m \<Rightarrow> if 7 \<le> m then Some m else acc (d_code x))"
  using assms
proof (induction ds arbitrary: acc)
  case Nil
  then show ?case by simp
next
  case (Cons y ds)
  show ?case
  proof (cases "x = y")
    case True
    from Cons.prems(1) have "d_code y \<notin> d_code ` set ds" by simp
    then show ?thesis
      using True by (auto simp: completed_loop_other split: option.splits)
  next
    case False
    with Cons.prems have x: "x \<in> set ds" and n: "d_code y \<noteq> d_code x"
      and d: "distinct (map d_code ds)" by auto
    show ?thesis
      using Cons.IH[OF d x] n by (auto split: option.splits)
  qed
qed

lemma allSatisfied_iff:
  "allSatisfied required completed \<longleftrightarrow>
     (\<forall>p \<in> set required. \<exists>v. completed p = Some v \<and> 7 \<le> v)"
  by (auto simp: allSatisfied_def check_prerequisites_def check_prerequisites_loop_filter
      filter_empty_conv)

lemma completed_of_Some:
  "completed_of db c = Some v \<Longrightarrow>
     7 \<le> v \<and> (\<exists>(k, x) \<in> set (disciplines db). d_code x = c \<and> d_media_final x = Some v)"
  using completed_loop_Some[of "get_all_disciplines db" Map.empty c v]
  by (fastforce simp: completed_of_def get_all_disciplines_def)

lemma completed_of_has:
  assumes "(k, x) \<in> set (disciplines db)" and "d_media_final x = Some v" and "7 \<le> v"
  shows "\<exists>w. completed_of db (d_code x) = Some w \<and> 7 \<le> w"
proof -
  have "x \<in> set (get_all_disciplines db)"
    using assms(1) by (force simp: get_all_disciplines_def)
  from completed_loop_has[OF this assms(2,3), of Map.empty]
  obtain w where w: "completed_of db (d_code x) = Some w" by (auto simp: completed_of_def)
  with completed_of_Some[OF w] show ?thesis by simp
qed

lemma allSatisfied_store:
  "allSatisfied required (completed_of db) \<longleftrightarrow>
     (\<forall>p \<in> set required. \<exists>(k, x) \<in> set (disciplines db).
         d_code x = p \<and> (\<exists>m. d_media_final x = Some m \<and> 7 \<le> m))"
proof
  assume a: "allSatisfied required (completed_of db)"
  show "\<forall>p \<in> set required. \<exists>(k, x) \<in> set (disciplines db).
         d_code x = p \<and> (\<exists>m. d_media_final x = Some m \<and> 7 \<le> m)"
  proof
    fix p assume "p \<in> set required"
    with a obtain v where "completed_of db p = Some v" by (auto simp: allSatisfied_iff)
    from completed_of_Some[OF this] show "\<exists>(k, x) \<in> set (disciplines db).
         d_code x = p \<and> (\<exists>m. d_media_final x = Some m \<and> 7 \<le> m)" by fastforce
  qed
next
  assume b: "\<forall>p \<in> set required. \<exists>(k, x) \<in> set (disciplines db).
         d_code x = p \<and> (\<exists>m. d_media_final x = Some m \<and> 7 \<le> m)"
  show "allSatisfied required (completed_of db)"
    unfolding allSatisfied_iff
  proof
    fix p assume "p \<in> set required"
    with b obtain k x m where "(k, x) \<in> set (disciplines db)" "d_code x = p"
      "d_media_final x = Some m" "7 \<le> m" by fastforce
    with completed_of_has[of k x db m] show "\<exists>v. completed_of db p = Some v \<and> 7 \<le> v" by auto
  qed
qed

lemma completed_of_distinct:
  assumes "distinct (map (\<lambda>(k, x). d_code x) (disciplines db))"
    and "(k, x) \<in> set (disciplines db)"
  shows "completed_of db (d_code x) =
     (case d_media_final x of None \<Rightarrow> None | Some m \<Rightarrow> if 7 \<le> m then Some m else None)"
proof -
  have m: "map d_code (get_all_disciplines db) = map (\<lambda>(k, x). d_code x) (disciplines db)"
    by (simp add: get_all_disciplines_def case_prod_unfold comp_def)
  have x: "x \<in> set (get_all_disciplines db)"
    using assms(2) by (force simp: get_all_disciplines_def)
  from completed_loop_distinct[OF assms(1)[folded m] x, of Map.empty]
  show ?thesis by (simp add: completed_of_def)
qed

text \<open>
  Claim C3. For a request whose semester and discipline exist, the prerequisites are
  checked before the schedules. The completed map holds the final averages of at least
  7.0 of the stored disciplines, under their codes: the prerequisites of the target are
  satisfied exactly when each of them is the code of a stored discipline with a final
  average of at least 7.0. When they are not satisfied, the outcome is
  PrerequisitesNotMet with the names of the missing codes that the store resolves, the
  others dropped, and the store is unchanged. When they are satisfied and the list of
  enrolled disciplines of the semester, in enrollment-list order, has a first discipline
  whose schedule conflicts with the target's, the outcome is ScheduleConflict with that
  discipline's name.
\<close>

theorem api_enroll_prerequisites_then_conflicts:
  assumes "get_semester db sc = Some sem" and "get_discipline db dc = Some d"
  shows "(completed_of db c = Some v \<longrightarrow>
            7 \<le> v \<and> (\<exists>(k, x) \<in> set (disciplines db). d_code x = c \<and> d_media_final x = Some v))
     \<and> (\<forall>(k, x) \<in> set (disciplines db).
            d_media_final x = Some v \<and> 7 \<le> v \<longrightarrow>
            (\<exists>w. completed_of db (d_code x) = Some w \<and> 7 \<le> w))
     \<and> (distinct (map (\<lambda>(k, x). d_code x) (disciplines db)) \<longrightarrow>
          (\<forall>(k, x) \<in> set (disciplines db).
             completed_of db (d_code x) =
               (case d_media_final x of
                  None \<Rightarrow> None | Some m \<Rightarrow> if 7 \<le> m then Some m else None)))
     \<and> (allSatisfied (d_prerequisites d) (completed_of db) \<longleftrightarrow>
          (\<forall>p \<in> set (d_prerequisites d). \<exists>(k, x) \<in> set (disciplines db).
              d_code x = p \<and> (\<exists>m. d_media_final x = Some m \<and> 7 \<le> m)))
     \<and> (\<not> allSatisfied (d_prerequisites d) (completed_of db) \<longrightarrow>
          api_enroll_discipline db sc dc =
            (Inr (PrerequisitesNotMet
                   (map (\<lambda>c. d_name (the (get_discipline db c)))
                      (filter (\<lambda>c. get_discipline db c \<noteq> None)
                         (missingPrerequisites (d_prerequisites d) (completed_of db))))), db))
     \<and> (allSatisfied (d_prerequisites d) (completed_of db)
          \<and> get_enrolled_disciplines db sc = pre @ e # post
          \<and> (\<forall>x \<in> set pre. has_schedule_conflict (d_schedules d) (d_schedules x)
                                = Inr (False, None))
          \<and> has_schedule_conflict (d_schedules d) (d_schedules e) = Inr (True, info) \<longrightarrow>
          api_enroll_discipline db sc dc = (Inr (ScheduleConflict (d_name e)), db))
     \<and> (\<forall>codes. map_of (enrollments db) sc = Some codes \<longrightarrow>
          get_enrolled_disciplines db sc
            = map (\<lambda>c. the (get_discipline db c))
                (filter (\<lambda>c. get_discipline db c \<noteq> None) codes))"
proof -
  have 1: "completed_of db c = Some v \<longrightarrow>
            7 \<le> v \<and> (\<exists>(k, x) \<in> set (disciplines db). d_code x = c \<and> d_media_final x = Some v)"
    using completed_of_Some by blast
  have 2: "\<forall>(k, x) \<in> set (disciplines db).
            d_media_final x = Some v \<and> 7 \<le> v \<longrightarrow>
            (\<exists>w. completed_of db (d_code x) = Some w \<and> 7 \<le> w)"
    using completed_of_has by blast
  have a2: "distinct (map (\<lambda>(k, x). d_code x) (disciplines db)) \<longrightarrow>
          (\<forall>(k, x) \<in> set (disciplines db).
             completed_of db (d_code x) =
               (case d_media_final x of
                  None \<Rightarrow> None | Some m \<Rightarrow> if 7 \<le> m then Some m else None))"
    using completed_of_distinct by blast
  note b2 = allSatisfied_store[of "d_prerequisites d" db]
  have 3: "\<not> allSatisfied (d_prerequisites d) (completed_of db) \<longrightarrow>
          api_enroll_discipline db sc dc =
            (Inr (PrerequisitesNotMet
                   (map (\<lambda>c. d_name (the (get_discipline db c)))
                      (filter (\<lambda>c. get_discipline db c \<noteq> None)
                         (missingPrerequisites (d_prerequisites d) (completed_of db))))), db)"
    by (simp add: api_enroll_discipline_found[OF assms])
  have 4: "allSatisfied (d_prerequisites d) (completed_of db)
          \<and> get_enrolled_disciplines db sc = pre @ e # post
          \<and> (\<forall>x \<in> set pre. has_schedule_conflict (d_schedules d) (d_schedules x)
                                = Inr (False, None))
          \<and> has_schedule_conflict (d_schedules d) (d_schedules e) = Inr (True, info) \<longrightarrow>
          api_enroll_discipline db sc dc = (Inr (ScheduleConflict (d_name e)), db)"
  proof
    assume a: "allSatisfied (d_prerequisites d) (completed_of db)
          \<and> get_enrolled_disciplines db sc = pre @ e # post
          \<and> (\<forall>x \<in> set pre. has_schedule_conflict (d_schedules d) (d_schedules x)
                                = Inr (False, None))
          \<and> has_schedule_conflict (d_schedules d) (d_schedules e) = Inr (True, info)"
    then have "conflict_loop (d_schedules d) (get_enrolled_disciplines db sc)
                 = Inr (Some (d_name e))"
      using conflict_loop_first[of pre "d_schedules d" e info post] by simp
    with a show "api_enroll_discipline db sc dc = (Inr (ScheduleConflict (d_name e)), db)"
      by (simp add: api_enroll_discipline_found[OF assms])
  qed
  have 5: "\<forall>codes. map_of (enrollments db) sc = Some codes \<longrightarrow>
          get_enrolled_disciplines db sc
            = map (\<lambda>c. the (get_discipline db c))
                (filter (\<lambda>c. get_discipline db c \<noteq> None) codes)"
    by (simp add: get_enrolled_disciplines_def get_discipline_def List.map_filter_def)
  from 1 2 a2 b2 3 4 5 show ?thesis by blast
qed

lemma sample_db_lookups:
  "get_semester (sample_db l) ''2024.1'' = Some \<lparr>sem_code = ''2024.1'', sem_status = Ativo\<rparr>"
  "get_discipline (sample_db l) ''14117'' = Some disc_14117"
  "get_discipline (sample_db l) ''14203'' = Some disc_14203"
  "get_discipline (sample_db l) ''06214'' = Some disc_06214"
  "get_all_disciplines (sample_db l) = [disc_14117, disc_14203, disc_06214]"
  "map_of (enrollments (sample_db l)) ''2024.1'' = Some l"
  by (simp_all add: get_semester_def get_discipline_def get_all_disciplines_def sample_db_def)

lemma sample_db_completed: "completed_of (sample_db l) = Map.empty"
  by (simp add: completed_of_def sample_db_lookups disc_14117_def disc_14203_def disc_06214_def)

lemma sample_conflicts:
  "has_schedule_conflict (d_schedules disc_14117) (d_schedules disc_14203) = Inr (False, None)"
  "has_schedule_conflict (d_schedules disc_14117) (d_schedules disc_06214)
     = Inr (True, Some \<lparr>ci_day = 4, ci_time1 = ''16:00-18:00'', ci_time2 = ''16:00-18:00''\<rparr>)"
  "has_schedule_conflict (d_schedules disc_14117) (d_schedules disc_14117)
     = Inr (True, Some \<lparr>ci_day = 1, ci_time1 = ''14:00-16:00'', ci_time2 = ''14:00-16:00''\<rparr>)"
  by (simp_all add: disc_14117_def disc_14203_def disc_06214_def check_time_overlap_def
      time_to_minutes_examples)

lemma graded_db_lookups:
  "get_semester (graded_db g p l) ''2024.1'' = Some \<lparr>sem_code = ''2024.1'', sem_status = Ativo\<rparr>"
  "get_discipline (graded_db g p l) ''06214'' = Some (disc_06214\<lparr>d_prerequisites := p\<rparr>)"
  "get_discipline (graded_db g p l) ''14203'' = Some disc_14203"
  "get_discipline (graded_db g p l) ''14117''
     = Some (disc_14117\<lparr>d_n1 := Some g, d_n2 := Some g, d_n3 := Some 0, d_media_final := Some g\<rparr>)"
  "get_discipline (graded_db g p l) ''99999'' = None"
  "map_of (enrollments (graded_db g p l)) ''2024.1'' = Some l"
  by (simp_all add: get_semester_def get_discipline_def graded_db_def sample_db_def)

lemma graded_db_completed:
  "completed_of (graded_db 8 p l) = [''14117'' \<mapsto> 8]"
  "completed_of (graded_db (13 / 2) p l) = Map.empty"
  by (simp_all add: completed_of_def get_all_disciplines_def graded_db_def
      disc_14117_def disc_14203_def disc_06214_def)

lemma graded_conflicts:
  "has_schedule_conflict (d_schedules disc_06214) (d_schedules disc_14203) = Inr (False, None)"
  "has_schedule_conflict (d_schedules disc_06214) (d_schedules disc_14117)
     = Inr (True, Some \<lparr>ci_day = 4, ci_time1 = ''16:00-18:00'', ci_time2 = ''16:00-18:00''\<rparr>)"
  by (simp_all add: disc_14117_def disc_14203_def disc_06214_def check_time_overlap_def
      time_to_minutes_examples)

theorem api_enroll_prerequisites_then_conflicts_witness:
  "api_enroll_discipline (graded_db 8 [''14117''] [''14203'', ''14117'']) ''2024.1'' ''06214''
     = (Inr (ScheduleConflict ''INTRODUCAO A PROGRAMACAO I''),
        graded_db 8 [''14117''] [''14203'', ''14117''])
   \<and> api_enroll_discipline (graded_db (13 / 2) [''14117''] [''14203'', ''14117''])
        ''2024.1'' ''06214''
     = (Inr (PrerequisitesNotMet [''INTRODUCAO A PROGRAMACAO I'']),
        graded_db (13 / 2) [''14117''] [''14203'', ''14117''])
   \<and> api_enroll_discipline (graded_db 8 [''99999'', ''14203'', ''14117''] []) ''2024.1'' ''06214''
     = (Inr (PrerequisitesNotMet [''MATEMATICA DISCRETA I'']),
        graded_db 8 [''99999'', ''14203'', ''14117''] [])
   \<and> api_enroll_discipline (sample_db [''14203'', ''06214'']) ''2024.1'' ''14117''
     = (Inr (ScheduleConflict ''ALGORITMOS''), sample_db [''14203'', ''06214''])"
proof -
  let ?passed = "disc_14117\<lparr>d_n1 := Some 8, d_n2 := Some 8, d_n3 := Some 0,
                            d_media_final := Some 8\<rparr>"
  have sat: "allSatisfied [''14117''] [''14117'' \<mapsto> 8]"
    "\<not> allSatisfied [''14117''] Map.empty"
    "missingPrerequisites [''14117''] Map.empty = [''14117'']"
    "\<not> allSatisfied [''99999'', ''14203'', ''14117''] [''14117'' \<mapsto> 8]"
    "missingPrerequisites [''99999'', ''14203'', ''14117''] [''14117'' \<mapsto> 8]
       = [''99999'', ''14203'']"
    "allSatisfied (d_prerequisites disc_14117) Map.empty"
    by (simp_all add: allSatisfied_def missingPrerequisites_def check_prerequisites_def
        disc_14117_def)
  have g: "get_enrolled_disciplines (graded_db 8 [''14117''] [''14203'', ''14117'']) ''2024.1''
             = [disc_14203] @ ?passed # []"
    "get_enrolled_disciplines (sample_db [''14203'', ''06214'']) ''2024.1''
             = [disc_14203] @ disc_06214 # []"
    by (simp_all add: get_enrolled_disciplines_def graded_db_def sample_db_def
        List.map_filter_def)
  have nm: "d_name disc_14117 = ''INTRODUCAO A PROGRAMACAO I''"
    "d_name disc_14203 = ''MATEMATICA DISCRETA I''" "d_name disc_06214 = ''ALGORITMOS''"
    by (simp_all add: disc_14117_def disc_14203_def disc_06214_def)
  have 1: "api_enroll_discipline (graded_db 8 [''14117''] [''14203'', ''14117'']) ''2024.1''
             ''06214''
     = (Inr (ScheduleConflict ''INTRODUCAO A PROGRAMACAO I''),
        graded_db 8 [''14117''] [''14203'', ''14117''])"
    using api_enroll_prerequisites_then_conflicts
      [OF graded_db_lookups(1) graded_db_lookups(2),
        of 8 "[''14117'']" "[''14203'', ''14117'']" _ _
        "[disc_14203]" ?passed "[]"
        "Some \<lparr>ci_day = 4, ci_time1 = ''16:00-18:00'', ci_time2 = ''16:00-18:00''\<rparr>"]
    by (simp add: graded_db_completed sat g graded_conflicts nm)
  have 2: "api_enroll_discipline (graded_db (13 / 2) [''14117''] [''14203'', ''14117''])
        ''2024.1'' ''06214''
     = (Inr (PrerequisitesNotMet [''INTRODUCAO A PROGRAMACAO I'']),
        graded_db (13 / 2) [''14117''] [''14203'', ''14117''])"
    using api_enroll_prerequisites_then_conflicts
      [OF graded_db_lookups(1) graded_db_lookups(2),
        of "13 / 2" "[''14117'']" "[''14203'', ''14117'']"]
    by (simp add: graded_db_completed sat graded_db_lookups nm)
  have 3: "api_enroll_discipline (graded_db 8 [''99999'', ''14203'', ''14117''] []) ''2024.1''
             ''06214''
     = (Inr (PrerequisitesNotMet [''MATEMATICA DISCRETA I'']),
        graded_db 8 [''99999'', ''14203'', ''14117''] [])"
    using api_enroll_prerequisites_then_conflicts
      [OF graded_db_lookups(1) graded_db_lookups(2),
        of 8 "[''99999'', ''14203'', ''14117'']" "[]"]
    by (simp add: graded_db_completed sat graded_db_lookups nm)
  have 4: "api_enroll_discipline (sample_db [''14203'', ''06214'']) ''2024.1'' ''14117''
     = (Inr (ScheduleConflict ''ALGORITMOS''), sample_db [''14203'', ''06214''])"
    using api_enroll_prerequisites_then_conflicts
      [OF sample_db_lookups(1) sample_db_lookups(2), of "[''14203'', ''06214'']" _ _
        "[disc_14203]" disc_06214 "[]"
        "Some \<lparr>ci_day = 4, ci_time1 = ''16:00-18:00'', ci_time2 = ''16:00-18:00''\<rparr>"]
    by (simp add: sample_db_completed sat g sample_conflicts nm)
  from 1 2 3 4 show ?thesis by simp
qed

text \<open>With the prerequisite completed and nothing enrolled the request succeeds.\<close>

lemma api_enroll_success:
  "api_enroll_discipline (graded_db 8 [''14117''] []) ''2024.1'' ''06214''
     = (Inr EnrolledSuccessfully, graded_db 8 [''14117''] [''06214''])"
proof -
  have sat: "allSatisfied [''14117''] [''14117'' \<mapsto> 8]"
    by (simp add: allSatisfied_def check_prerequisites_def)
  have g: "get_enrolled_disciplines (graded_db 8 [''14117''] []) ''2024.1'' = []"
    by (simp add: get_enrolled_disciplines_def graded_db_def sample_db_def List.map_filter_def)
  have e: "db_enroll_discipline (graded_db 8 [''14117''] []) ''2024.1'' ''06214''
             = (True, graded_db 8 [''14117''] [''06214''])"
    by (simp add: db_enroll_discipline_def graded_db_def sample_db_def)
  show ?thesis
    by (simp add: api_enroll_discipline_found[OF graded_db_lookups(1) graded_db_lookups(2)]
        graded_db_completed sat g e)
qed

subsection \<open>Enrolling a discipline again\<close>

lemma db_enroll_discipline_present:
  "map_of (enrollments db) sc = Some codes \<Longrightarrow> dc \<in> set codes \<Longrightarrow>
     db_enroll_discipline db sc dc = (False, db)"
  by (simp add: db_enroll_discipline_def)

text \<open>A request for a discipline that is already in the list never changes the store.\<close>

lemma reenroll_store_unchanged:
  assumes "map_of (enrollments db) sc = Some codes" and "dc \<in> set codes"
  shows "snd (api_enroll_discipline db sc dc) = db"
  by (simp add: api_enroll_discipline_def Let_def db_enroll_discipline_present[OF assms]
      split: option.splits prod.splits sum.splits)

lemma has_schedule_conflict_inner_hit:
  assumes "sch2 \<in> set ys" and "sch_day sch1 = sch_day sch2"
    and "check_time_overlap (sch_start sch1) (sch_end sch1) (sch_start sch2) (sch_end sch2)
           = Inr True"
  shows "has_schedule_conflict_inner sch1 ys \<noteq> Inr None"
  using assms by (induction ys) (auto split: sum.splits)

lemma has_schedule_conflict_hit:
  assumes "sch1 \<in> set xs" and "has_schedule_conflict_inner sch1 ys \<noteq> Inr None"
  shows "has_schedule_conflict xs ys \<noteq> Inr (False, i)"
  using assms by (induction xs) (auto split: sum.splits option.splits)

lemma conflict_loop_hit:
  assumes "e \<in> set ds" and "\<forall>i. has_schedule_conflict s (d_schedules e) \<noteq> Inr (False, i)"
  shows "conflict_loop s ds \<noteq> Inr None"
  using assms by (induction ds) (auto split: sum.splits prod.splits)

lemma enrolled_discipline_listed:
  assumes "map_of (enrollments db) sc = Some codes" and "dc \<in> set codes"
    and "get_discipline db dc = Some d"
  shows "d \<in> set (get_enrolled_disciplines db sc)"
  using assms
  by (force simp: get_enrolled_disciplines_def get_discipline_def List.map_filter_def)

text \<open>
  An enrolled discipline with a time block whose start is before its end is never
  answered with AlreadyEnrolled: the loop over the enrolled disciplines meets the target
  itself, and the block overlaps with itself unless an earlier pair already ended the
  request.
\<close>

lemma reenroll_never_already_enrolled:
  assumes "get_semester db sc = Some sem" and "get_discipline db dc = Some d"
    and "map_of (enrollments db) sc = Some codes" and "dc \<in> set codes"
    and "sch \<in> set (d_schedules d)"
    and "time_to_minutes (sch_start sch) = Inr a" and "time_to_minutes (sch_end sch) = Inr b"
    and "a < b"
  shows "fst (api_enroll_discipline db sc dc) \<noteq> Inr AlreadyEnrolled"
proof -
  have "check_time_overlap (sch_start sch) (sch_end sch) (sch_start sch) (sch_end sch) = Inr True"
    using assms(6-8) by (simp add: check_time_overlap_def)
  from has_schedule_conflict_inner_hit[OF assms(5) refl this]
  have "\<forall>i. has_schedule_conflict (d_schedules d) (d_schedules d) \<noteq> Inr (False, i)"
    using has_schedule_conflict_hit[OF assms(5)] by blast
  from conflict_loop_hit[OF enrolled_discipline_listed[OF assms(3,4,2)] this]
  have "conflict_loop (d_schedules d) (get_enrolled_disciplines db sc) \<noteq> Inr None" .
  then show ?thesis
    by (auto simp: api_enroll_discipline_found[OF assms(1,2)] split: sum.splits option.splits)
qed

text \<open>
  Claim C2. A request to enroll a discipline that is already in the list of the semester
  is meant to be answered with AlreadyEnrolled, the store unchanged. The store is
  unchanged, but the answer differs: the loop over the enrolled disciplines does not skip
  the target. The first request for 14117 in 2024.1 succeeds; the second is answered with
  a schedule conflict of 14117 with itself.
\<close>

theorem reenroll_conflicts_with_itself:
  "api_enroll_discipline (sample_db []) ''2024.1'' ''14117''
     = (Inr EnrolledSuccessfully, sample_db [''14117''])
   \<and> api_enroll_discipline (sample_db [''14117'']) ''2024.1'' ''14117''
     = (Inr (ScheduleConflict ''INTRODUCAO A PROGRAMACAO I''), sample_db [''14117''])"
proof -
  have p: "allSatisfied (d_prerequisites disc_14117) Map.empty"
    by (simp add: allSatisfied_def check_prerequisites_def disc_14117_def)
  have g: "get_enrolled_disciplines (sample_db []) ''2024.1'' = []"
    "get_enrolled_disciplines (sample_db [''14117'']) ''2024.1'' = [disc_14117]"
    by (simp_all add: get_enrolled_disciplines_def sample_db_def List.map_filter_def)
  have e: "db_enroll_discipline (sample_db []) ''2024.1'' ''14117''
             = (True, sample_db [''14117''])"
    by (simp add: db_enroll_discipline_def sample_db_def)
  have 1: "api_enroll_discipline (sample_db []) ''2024.1'' ''14117''
     = (Inr EnrolledSuccessfully, sample_db [''14117''])"
    by (simp add: api_enroll_discipline_found[OF sample_db_lookups(1) sample_db_lookups(2)]
        sample_db_completed p g e)
  have 2: "api_enroll_discipline (sample_db [''14117'']) ''2024.1'' ''14117''
     = (Inr (ScheduleConflict ''INTRODUCAO A PROGRAMACAO I''), sample_db [''14117''])"
    by (simp add: api_enroll_discipline_found[OF sample_db_lookups(1) sample_db_lookups(2)]
        sample_db_completed p g sample_conflicts, simp add: disc_14117_def)
  from 1 2 show ?thesis by simp
qed

text \<open>
  The prerequisite check comes first as well: with 06214 in the list of 2024.1 and its
  prerequisite 14117 without a final average, the request for 06214 is answered with
  PrerequisitesNotMet.
\<close>

lemma reenroll_prerequisites_not_met:
  "api_enroll_discipline (sample_db [''06214'']) ''2024.1'' ''06214''
     = (Inr (PrerequisitesNotMet [''INTRODUCAO A PROGRAMACAO I'']), sample_db [''06214''])"
proof -
  have n: "\<not> allSatisfied (d_prerequisites disc_06214) Map.empty"
    "missingPrerequisites (d_prerequisites disc_06214) Map.empty = [''14117'']"
    by (simp_all add: allSatisfied_def missingPrerequisites_def check_prerequisites_def
        disc_06214_def)
  show ?thesis
    by (simp add: api_enroll_discipline_found[OF sample_db_lookups(1) sample_db_lookups(4)]
        sample_db_completed n sample_db_lookups disc_14117_def)
qed

text \<open>
  The answer AlreadyEnrolled is reached by a discipline without time blocks, which cannot
  conflict with itself.
\<close>

lemma reenroll_without_schedule:
  "api_enroll_discipline unscheduled_db ''2024.1'' ''14203'' = (Inr AlreadyEnrolled, unscheduled_db)"
proof -
  have s: "get_semester unscheduled_db ''2024.1''
             = Some \<lparr>sem_code = ''2024.1'', sem_status = Ativo\<rparr>"
    by (simp add: unscheduled_db_def get_semester_def sample_db_def)
  have d: "get_discipline unscheduled_db ''14203'' = Some (disc_14203\<lparr>d_schedules := []\<rparr>)"
    by (simp add: unscheduled_db_def get_discipline_def)
  have e: "map_of (enrollments unscheduled_db) ''2024.1'' = Some [''14203'']"
    by (simp add: unscheduled_db_def sample_db_def)
  have p: "allSatisfied (d_prerequisites disc_14203) (completed_of unscheduled_db)"
    by (simp add: allSatisfied_def check_prerequisites_def disc_14203_def)
  have c: "conflict_loop [] (get_enrolled_disciplines unscheduled_db ''2024.1'') = Inr None"
    by (simp add: get_enrolled_disciplines_def List.map_filter_def unscheduled_db_def
        sample_db_def)
  show ?thesis
    by (simp add: api_enroll_discipline_found[OF s d] p c db_enroll_discipline_present[OF e])
qed

end
